theory Spec2Isabelle
  imports Main "HOL-Library.Sublist" "HOL-Library.Word"
begin

section \<open>Values shared by the IPC handlers\<close>

text \<open>
  The handlers under \<open>electron/ipc-handlers\<close> talk to the outside through a small
  number of collaborators: \<open>node:fs\<close>, \<open>node:path\<close>, the SQLite binding, the
  \<open>databaseManager\<close> singleton, \<open>logAuditEvent\<close> and \<open>withAuthorization\<close>.
  The model makes each of them explicit. Strings are \<open>char list\<close>s (the UTF-8 bytes
  of the JavaScript string), file contents and buffers are lists of 8-bit words.
\<close>

type_synonym fpath = string
type_synonym bytes = "8 word list"
type_synonym table = "string \<times> nat"

text \<open>
  The classes of \<open>src/errors/DomainErrors.ts\<close> that the handlers construct, a plain
  \<open>new Error(message)\<close>, and the errors raised by \<open>node:fs\<close> and the SQLite binding
  (\<open>SystemError code path\<close>). \<open>Unauthorized\<close> is the rejection of the authorization
  guard, \<open>Forbidden\<close> and \<open>ResourceNotFound\<close> are the two failures of the ownership
  check in the spec's taxonomy.
\<close>

datatype err =
    Unauthorized
  | Forbidden
  | ResourceNotFound
  | DatabaseError string string
  | FileNotFoundError string
  | EncryptionError string string
  | ValidationError string
  | RequiredFieldError string
  | EvidenceNotFoundError string
  | CaseNotFoundError int
  | NotificationNotFoundError int
  | TemplateNotFoundError string
  | GdprComplianceError nat string string
  | ConsentRequiredError string string
  | DataDeletionError string nat
  | JsError string
  | SystemError string fpath

text \<open>\<open>IPCResponse\<close>: \<open>successResponse(data)\<close> and \<open>formatError(error)\<close>.\<close>

datatype 'a IPCResponse = Success 'a | Failure err

definition successResponse :: "'a \<Rightarrow> 'a IPCResponse" where
  "successResponse d = Success d"

definition formatError :: "err \<Rightarrow> 'a IPCResponse" where
  "formatError e = Failure e"

datatype AuditEventType =
    DATABASE_MIGRATED
  | DATABASE_BACKUP_CREATED
  | DATABASE_BACKUP_RESTORED
  | DATABASE_BACKUP_DELETED
  | CASE_VIEWED
  | CASE_UPDATED
  | CASE_DELETED

text \<open>The argument of \<open>logAuditEvent\<close>; an absent optional field is \<open>None\<close>.\<close>

record audit_event =
  eventType :: AuditEventType
  userId :: "string option"
  resourceType :: string
  resourceId :: string
  action :: string
  success :: bool
  details :: "(string \<times> string) list option"
  errorMessage :: "string option"

section \<open>The world the database handlers act on\<close>

text \<open>
  \<open>files\<close> is the disk, \<open>dirs\<close> the directories that exist, \<open>unwritable\<close> the
  paths a write to which is refused by the operating system. \<open>db\<close> is the connection
  held by \<open>databaseManager\<close>: \<open>Closed\<close>, or \<open>Open live\<close> where \<open>live\<close> is what a query
  through the connection sees (its tables with their row counts). \<open>audit\<close> is the
  ledger written by \<open>logAuditEvent\<close>, a field of every state a handler acts on;
  \<open>ops\<close> is the sequence of calls made to the file system and to the connection, in
  the order they happen.
\<close>

datatype dbstate = Closed | Open "table list"

datatype fsop =
    ExistsSync fpath
  | MkdirSync fpath
  | CopyFileSync fpath fpath
  | StatSync fpath
  | UnlinkSync fpath
  | OpenReadonly fpath
  | DbClose
  | DbGetDatabase

record ledger =
  audit :: "audit_event list"

record world = ledger +
  files :: "fpath \<rightharpoonup> bytes"
  dirs :: "fpath set"
  unwritable :: "fpath set"
  db :: dbstate
  ops :: "fsop list"

text \<open>
  What the handlers read from their environment and do not compute themselves:
  \<open>app.getPath("userData")\<close>, \<open>path.join\<close> and \<open>path.resolve\<close>, the clock
  (\<open>new Date().toISOString()\<close>), the \<open>message\<close> property of an error, the SQLite
  file format (\<open>sqlite_tables bs\<close> is the table list of a well-formed store file and
  \<open>None\<close> for any other content) and the SQLite parser: \<open>sqlite_count conn name\<close> is
  what the statement \<open>SELECT COUNT(*) as count FROM \<close> followed by the text \<open>name\<close>
  answers on a connection that sees the tables \<open>conn\<close>, a count or the error thrown
  (the name is spliced into the statement as it is, without quotes).
\<close>

record env =
  userData :: fpath
  path_join :: "fpath \<Rightarrow> string \<Rightarrow> fpath"
  path_resolve :: "fpath \<Rightarrow> fpath"
  toISOString :: string
  err_message :: "err \<Rightarrow> string"
  sqlite_tables :: "bytes \<Rightarrow> table list option"
  sqlite_count :: "table list \<Rightarrow> string \<Rightarrow> err + nat"

subsection \<open>Sequencing, throw and try/catch\<close>

text \<open>
  A computation takes the world and gives back either a thrown error (\<open>Inl\<close>) or a
  value (\<open>Inr\<close>), with the world it leaves.
\<close>

type_synonym ('a, 's) comp = "'s \<Rightarrow> (err + 'a) \<times> 's"

definition ret :: "'a \<Rightarrow> ('a, 's) comp" where
  "ret x w = (Inr x, w)"

definition throw :: "err \<Rightarrow> ('a, 's) comp" where
  "throw e w = (Inl e, w)"

definition andThen :: "('a, 's) comp \<Rightarrow> ('a \<Rightarrow> ('b, 's) comp) \<Rightarrow> ('b, 's) comp" where
  "andThen m f w = (case m w of (Inl e, w') \<Rightarrow> (Inl e, w') | (Inr x, w') \<Rightarrow> f x w')"

definition tryCatch :: "('a, 's) comp \<Rightarrow> (err \<Rightarrow> ('a, 's) comp) \<Rightarrow> ('a, 's) comp" where
  "tryCatch m h w = (case m w of (Inl e, w') \<Rightarrow> h e w' | (Inr x, w') \<Rightarrow> (Inr x, w'))"

definition logged :: "fsop \<Rightarrow> world \<Rightarrow> world" where
  "logged c w = w\<lparr>ops := ops w @ [c]\<rparr>"

subsection \<open>\<open>node:fs\<close>, the SQLite binding and \<open>databaseManager\<close>\<close>

definition existsSync :: "fpath \<Rightarrow> (bool, world) comp" where
  "existsSync p w = (Inr (p \<in> dom (files w) \<or> p \<in> dirs w), logged (ExistsSync p) w)"

definition mkdirSync :: "fpath \<Rightarrow> (unit, world) comp" where
  "mkdirSync p w =
     (if p \<in> unwritable w then (Inl (SystemError ''EACCES'' p), logged (MkdirSync p) w)
      else (Inr (), logged (MkdirSync p) (w\<lparr>dirs := insert p (dirs w)\<rparr>)))"

text \<open>
  \<open>fs.copyFileSync\<close> opens the source, then opens the destination for writing, then
  copies. Nothing is changed when one of the two cannot be opened (no source:
  \<open>ENOENT\<close>; the destination is a directory: \<open>EISDIR\<close>; it cannot be written:
  \<open>EACCES\<close>). When the copy itself fails, which it does on a source that is a
  directory (\<open>EISDIR\<close>), the destination has been opened and is removed.
\<close>

definition copyFileSync :: "fpath \<Rightarrow> fpath \<Rightarrow> (unit, world) comp" where
  "copyFileSync src dst w =
     (if src \<notin> dom (files w) \<and> src \<notin> dirs w
      then (Inl (SystemError ''ENOENT'' src), logged (CopyFileSync src dst) w)
      else if dst \<in> dirs w
      then (Inl (SystemError ''EISDIR'' dst), logged (CopyFileSync src dst) w)
      else if dst \<in> unwritable w
      then (Inl (SystemError ''EACCES'' dst), logged (CopyFileSync src dst) w)
      else
        (case files w src of
           None \<Rightarrow> (Inl (SystemError ''EISDIR'' src),
                    logged (CopyFileSync src dst) (w\<lparr>files := (files w)(dst := None)\<rparr>))
         | Some bs \<Rightarrow>
             (Inr (), logged (CopyFileSync src dst) (w\<lparr>files := (files w)(dst \<mapsto> bs)\<rparr>))))"

definition statSync_size :: "fpath \<Rightarrow> (nat, world) comp" where
  "statSync_size p w =
     (case files w p of
        None \<Rightarrow> (Inl (SystemError ''ENOENT'' p), logged (StatSync p) w)
      | Some bs \<Rightarrow> (Inr (length bs), logged (StatSync p) w))"

definition unlinkSync :: "fpath \<Rightarrow> (unit, world) comp" where
  "unlinkSync p w =
     (case files w p of
        None \<Rightarrow> (Inl (SystemError (if p \<in> dirs w then ''EISDIR'' else ''ENOENT'') p),
                 logged (UnlinkSync p) w)
      | Some bs \<Rightarrow>
          if p \<in> unwritable w
          then (Inl (SystemError ''EACCES'' p), logged (UnlinkSync p) w)
          else (Inr (), logged (UnlinkSync p) (w\<lparr>files := (files w)(p := None)\<rparr>)))"

text \<open>
  \<open>new Database(path, { readonly: true })\<close> followed by \<open>close()\<close>. The binding opens
  the path and reads nothing from it before the first statement is run, and the
  handler runs none: the constructor succeeds on whatever is at the path, a file of any
  content or a directory, and throws \<open>SQLITE_CANTOPEN\<close> when nothing is there.
\<close>

definition newDatabaseReadonly :: "fpath \<Rightarrow> (unit, world) comp" where
  "newDatabaseReadonly p w =
     (if p \<in> dom (files w) \<or> p \<in> dirs w then (Inr (), logged (OpenReadonly p) w)
      else (Inl (SystemError ''SQLITE_CANTOPEN'' p), logged (OpenReadonly p) w))"

definition getMainDbPath :: "env \<Rightarrow> fpath" where
  "getMainDbPath E = path_join E (userData E) ''justice.db''"

text \<open>
  Modelled from the spec: \<open>databaseManager\<close> (\<open>src/db/database.ts\<close>) is not among the
  sources. The spec gives the primary store the two states Open and Closed; the restore
  handler calls \<open>close()\<close> to close the handle and \<open>getDatabase()\<close> to reopen it
  ("Reopen database"). \<open>getDatabase\<close> returns the open connection, or opens the file
  at the primary location when the connection is closed, which fails when that file is
  absent or is not a well-formed store.
\<close>

definition databaseManager_close :: "(unit, world) comp" where
  "databaseManager_close w = (Inr (), logged DbClose (w\<lparr>db := Closed\<rparr>))"

definition databaseManager_getDatabase :: "env \<Rightarrow> (table list, world) comp" where
  "databaseManager_getDatabase E w =
     (case db w of
        Open live \<Rightarrow> (Inr live, logged DbGetDatabase w)
      | Closed \<Rightarrow>
          (case files w (getMainDbPath E) of
             None \<Rightarrow> (Inl (SystemError ''SQLITE_CANTOPEN'' (getMainDbPath E)),
                      logged DbGetDatabase w)
           | Some bs \<Rightarrow>
               (case sqlite_tables E bs of
                  None \<Rightarrow> (Inl (SystemError ''SQLITE_NOTADB'' (getMainDbPath E)),
                           logged DbGetDatabase w)
                | Some ts \<Rightarrow> (Inr ts, logged DbGetDatabase (w\<lparr>db := Open ts\<rparr>)))))"

text \<open>
  Modelled from the spec: \<open>logAuditEvent\<close> (\<open>electron/utils/audit-helper.ts\<close>) is not
  among the sources. By section 4.4 of the spec it appends the event to the ledger and
  never throws into the operation it documents.
\<close>

definition logAuditEvent :: "audit_event \<Rightarrow> (unit, 'z ledger_scheme) comp" where
  "logAuditEvent ev w = (Inr (), w\<lparr>audit := audit w @ [ev]\<rparr>)"

subsection \<open>Helper functions of the database handlers\<close>

text \<open>\<open>String.prototype.includes\<close> and \<open>startsWith\<close>.\<close>

fun str_includes :: "string \<Rightarrow> string \<Rightarrow> bool" where
  "str_includes [] sub = (sub = [])"
| "str_includes (c # cs) sub = (prefix sub (c # cs) \<or> str_includes cs sub)"

definition startsWith :: "string \<Rightarrow> string \<Rightarrow> bool" where
  "startsWith s p = prefix p s"

definition getBackupDir :: "env \<Rightarrow> (fpath, world) comp" where
  "getBackupDir E =
     (let backupDir = path_join E (userData E) ''backups'' in
      andThen (existsSync backupDir) (\<lambda>ex.
        if \<not> ex then andThen (mkdirSync backupDir) (\<lambda>_. ret backupDir)
        else ret backupDir))"

text \<open>
  \<open>formatTimestamp\<close>: the ISO string with every \<open>:\<close> and \<open>.\<close> replaced by \<open>-\<close>, cut
  to its first 19 characters.
\<close>

definition formatTimestamp :: "env \<Rightarrow> string" where
  "formatTimestamp E =
     take 19 (map (\<lambda>c. if c = CHR '':'' \<or> c = CHR ''.'' then CHR ''-'' else c) (toISOString E))"

section \<open>The authorization guard\<close>

text \<open>
  Modelled from the spec: \<open>withAuthorization\<close>
  (\<open>electron/utils/authorization-wrapper.ts\<close>) is not among the sources. By sections 3
  and 4.1 of the spec a session is an opaque token that maps to one user id and an
  expiry; the guard fails with \<open>Unauthorized\<close> when the session id is absent, malformed,
  expired or resolves to no user, and otherwise invokes the work with the resolved user
  id. An error thrown by the work is propagated unchanged, as the failure response
  (the handlers say "withAuthorization will handle error formatting").
\<close>

record session =
  session_userId :: nat
  expiresAt :: nat

record session_store =
  sessions :: "string \<rightharpoonup> session"
  users :: "nat set"
  now :: nat

definition validateSession :: "session_store \<Rightarrow> string \<Rightarrow> nat option" where
  "validateSession S sessionId =
     (case sessions S sessionId of
        None \<Rightarrow> None
      | Some s \<Rightarrow>
          if expiresAt s \<le> now S then None
          else if session_userId s \<in> users S then Some (session_userId s)
          else None)"

definition withAuthorization ::
  "session_store \<Rightarrow> string \<Rightarrow> (nat \<Rightarrow> ('a IPCResponse, 's) comp) \<Rightarrow> 's \<Rightarrow> 'a IPCResponse \<times> 's" where
  "withAuthorization S sessionId work w =
     (case validateSession S sessionId of
        None \<Rightarrow> (Failure Unauthorized, w)
      | Some uid \<Rightarrow>
          (case work uid w of
             (Inl e, w') \<Rightarrow> (Failure e, w')
           | (Inr r, w') \<Rightarrow> (r, w')))"

section \<open>The database handlers\<close>

subsection \<open>\<open>db:restore\<close>\<close>

datatype restore_data = RestoreData bool string fpath

text \<open>\<open>userId.toString()\<close> is kept symbolic: the decimal digits of the user id.\<close>

fun digits :: "nat \<Rightarrow> string" where
  "digits n =
     (if n < 10 then [''0123456789'' ! n]
      else digits (n div 10) @ [''0123456789'' ! (n mod 10)])"

declare digits.simps [simp del]

text \<open>
  The function passed to \<open>withAuthorization\<close> by the \<open>db:restore\<close> handler: the
  \<open>try\<close> block, and the \<open>catch\<close> block that logs the failed attempt and returns
  \<open>formatError(error)\<close>. The \<open>try\<close> block is written in two parts: \<open>restore_try\<close>
  validates the filename and verifies the backup, \<open>restore_swap\<close> is the rest of the
  block, from the pre-restore snapshot to the response.
\<close>

definition restore_swap ::
  "env \<Rightarrow> string \<Rightarrow> nat \<Rightarrow> fpath \<Rightarrow> fpath \<Rightarrow> fpath \<Rightarrow> (restore_data IPCResponse, world) comp" where
  "restore_swap E backupFilename uid backupDir backupPath mainDbPath =
     (let preRestoreBackup =
            path_join E backupDir (''pre-restore_'' @ formatTimestamp E @ ''.db'')
      in
      andThen (existsSync mainDbPath) (\<lambda>mainEx.
      andThen (if mainEx then copyFileSync mainDbPath preRestoreBackup else ret ()) (\<lambda>_.
      andThen databaseManager_close (\<lambda>_.
      andThen (copyFileSync backupPath mainDbPath) (\<lambda>_.
      andThen (databaseManager_getDatabase E) (\<lambda>_.
      andThen (logAuditEvent
                 \<lparr>eventType = DATABASE_BACKUP_RESTORED, userId = Some (digits uid),
                  resourceType = ''database'', resourceId = ''main'',
                  action = ''restore'', success = True,
                  details = Some [(''backupFilename'', backupFilename)],
                  errorMessage = None\<rparr>) (\<lambda>_.
      ret (successResponse
             (RestoreData True ''Database restored successfully'' preRestoreBackup)))))))))"

definition restore_try :: "env \<Rightarrow> string \<Rightarrow> nat \<Rightarrow> (restore_data IPCResponse, world) comp" where
  "restore_try E backupFilename uid =
     andThen (getBackupDir E) (\<lambda>backupDir.
       if str_includes backupFilename ''/'' \<or> str_includes backupFilename [CHR 0x5C]
          \<or> str_includes backupFilename ''..''
       then throw (DatabaseError ''restore'' ''Invalid backup filename - path traversal not allowed'')
       else
         let backupPath = path_join E backupDir backupFilename;
             mainDbPath = getMainDbPath E;
             resolvedBackupPath = path_resolve E backupPath;
             resolvedBackupDir = path_resolve E backupDir
         in
         if \<not> startsWith resolvedBackupPath resolvedBackupDir
         then throw (DatabaseError ''restore'' ''Invalid backup path - outside backup directory'')
         else
           andThen (existsSync backupPath) (\<lambda>ex.
             if \<not> ex then throw (FileNotFoundError ''Backup file not found'')
             else
               andThen (tryCatch (newDatabaseReadonly backupPath)
                          (\<lambda>err. throw (DatabaseError ''restore'' ''Backup file is corrupted or invalid'')))
               (\<lambda>_. restore_swap E backupFilename uid backupDir backupPath mainDbPath)))"

definition restore_catch :: "env \<Rightarrow> string \<Rightarrow> nat \<Rightarrow> err \<Rightarrow> (restore_data IPCResponse, world) comp" where
  "restore_catch E backupFilename uid error =
     andThen (logAuditEvent
                \<lparr>eventType = DATABASE_BACKUP_RESTORED, userId = Some (digits uid),
                 resourceType = ''database'', resourceId = ''main'',
                 action = ''restore'', success = False,
                 details = Some [(''backupFilename'', backupFilename),
                                 (''error'', err_message E error)],
                 errorMessage = None\<rparr>) (\<lambda>_.
     ret (formatError error))"

definition restore_work :: "env \<Rightarrow> string \<Rightarrow> nat \<Rightarrow> (restore_data IPCResponse, world) comp" where
  "restore_work E backupFilename uid =
     tryCatch (restore_try E backupFilename uid) (restore_catch E backupFilename uid)"

definition db_restore ::
  "env \<Rightarrow> session_store \<Rightarrow> string \<Rightarrow> string \<Rightarrow> world \<Rightarrow> restore_data IPCResponse \<times> world" where
  "db_restore E S backupFilename sessionId =
     withAuthorization S sessionId (restore_work E backupFilename)"

subsection \<open>\<open>db:deleteBackup\<close>\<close>

datatype delete_data = DeleteData bool string

definition deleteBackup_try :: "env \<Rightarrow> string \<Rightarrow> nat \<Rightarrow> (delete_data IPCResponse, world) comp" where
  "deleteBackup_try E backupFilename uid =
     andThen (getBackupDir E) (\<lambda>backupDir.
       if str_includes backupFilename ''/'' \<or> str_includes backupFilename [CHR 0x5C]
          \<or> str_includes backupFilename ''..''
       then throw (DatabaseError ''delete backup''
                     ''Invalid backup filename - path traversal not allowed'')
       else
         let backupPath = path_join E backupDir backupFilename;
             resolvedBackupPath = path_resolve E backupPath;
             resolvedBackupDir = path_resolve E backupDir
         in
         if \<not> startsWith resolvedBackupPath resolvedBackupDir
         then throw (DatabaseError ''delete backup''
                       ''Invalid backup path - outside backup directory'')
         else
           andThen (existsSync backupPath) (\<lambda>ex.
             if \<not> ex then throw (FileNotFoundError ''Backup file not found'')
             else
               andThen (unlinkSync backupPath) (\<lambda>_.
               andThen (logAuditEvent
                          \<lparr>eventType = DATABASE_BACKUP_DELETED, userId = Some (digits uid),
                           resourceType = ''database'', resourceId = backupFilename,
                           action = ''delete'', success = True,
                           details = Some [(''backupFilename'', backupFilename)],
                           errorMessage = None\<rparr>) (\<lambda>_.
               ret (successResponse (DeleteData True ''Backup deleted successfully''))))))"

definition deleteBackup_catch :: "env \<Rightarrow> string \<Rightarrow> nat \<Rightarrow> err \<Rightarrow> (delete_data IPCResponse, world) comp" where
  "deleteBackup_catch E backupFilename uid error =
     andThen (logAuditEvent
                \<lparr>eventType = DATABASE_BACKUP_DELETED, userId = Some (digits uid),
                 resourceType = ''database'', resourceId = backupFilename,
                 action = ''delete'', success = False,
                 details = Some [(''error'', err_message E error)],
                 errorMessage = None\<rparr>) (\<lambda>_.
     ret (formatError error))"

definition deleteBackup_work :: "env \<Rightarrow> string \<Rightarrow> nat \<Rightarrow> (delete_data IPCResponse, world) comp" where
  "deleteBackup_work E backupFilename uid =
     tryCatch (deleteBackup_try E backupFilename uid) (deleteBackup_catch E backupFilename uid)"

definition db_deleteBackup ::
  "env \<Rightarrow> session_store \<Rightarrow> string \<Rightarrow> string \<Rightarrow> world \<Rightarrow> delete_data IPCResponse \<times> world" where
  "db_deleteBackup E S backupFilename sessionId =
     withAuthorization S sessionId (deleteBackup_work E backupFilename)"

subsection \<open>\<open>db:backup\<close>\<close>

record backup_counts =
  version :: string
  record_count :: nat
  tables :: "string list"

record BackupMetadata =
  filename :: string
  path :: fpath
  size_bytes :: nat
  created_at :: string
  is_valid :: bool
  metadata :: "backup_counts option"

text \<open>\<open>String.prototype.toLowerCase\<close> on the ASCII letters.\<close>

definition toLowerCase_char :: "char \<Rightarrow> char" where
  "toLowerCase_char c =
     (case map_of (zip ''ABCDEFGHIJKLMNOPQRSTUVWXYZ'' ''abcdefghijklmnopqrstuvwxyz'') c of
        None \<Rightarrow> c
      | Some l \<Rightarrow> l)"

definition toLowerCase :: "string \<Rightarrow> string" where
  "toLowerCase s = map toLowerCase_char s"

text \<open>
  The query \<open>SELECT name FROM sqlite_master WHERE type='table' AND name NOT LIKE
  'sqlite_%'\<close> on a connection: \<open>LIKE\<close> ignores ASCII case, \<open>_\<close> stands for any one
  character and \<open>%\<close> for any sequence, so the names left out are those of at least
  seven characters that begin with \<open>sqlite\<close>.
\<close>

definition like_sqlite :: "string \<Rightarrow> bool" where
  "like_sqlite name = (7 \<le> length name \<and> toLowerCase (take 6 name) = ''sqlite'')"

definition select_table_names :: "table list \<Rightarrow> string list" where
  "select_table_names conn = map fst (filter (\<lambda>t. \<not> like_sqlite (fst t)) conn)"

text \<open>
  The statement \<open>SELECT COUNT(*) as count FROM ${table.name}\<close>, prepared and run on the
  connection: the count, or the error of the parser thrown into the handler.
\<close>

definition select_count :: "env \<Rightarrow> table list \<Rightarrow> string \<Rightarrow> (nat, world) comp" where
  "select_count E conn name w = (sqlite_count E conn name, w)"

text \<open>
  The loop \<open>for (const table of tables)\<close>: the count of each table, summed into
  \<open>totalRecords\<close>, the name pushed onto \<open>tableNames\<close>. It ends at the first statement
  that throws.
\<close>

fun count_loop ::
  "env \<Rightarrow> table list \<Rightarrow> string list \<Rightarrow> nat \<Rightarrow> string list \<Rightarrow> (nat \<times> string list, world) comp" where
  "count_loop E conn [] totalRecords tableNames = ret (totalRecords, tableNames)"
| "count_loop E conn (name # rest) totalRecords tableNames =
     andThen (select_count E conn name) (\<lambda>count.
       count_loop E conn rest (totalRecords + count) (tableNames @ [name]))"

definition backup_try :: "env \<Rightarrow> (BackupMetadata IPCResponse, world) comp" where
  "backup_try E =
     (let mainDbPath = getMainDbPath E in
      andThen (getBackupDir E) (\<lambda>backupDir.
        let timestamp = formatTimestamp E;
            backupFilename = ''backup_'' @ timestamp @ ''.db'';
            backupPath = path_join E backupDir backupFilename
        in
        andThen (existsSync mainDbPath) (\<lambda>ex.
          if \<not> ex then throw (FileNotFoundError ''Main database file not found'')
          else
            andThen (copyFileSync mainDbPath backupPath) (\<lambda>_.
            andThen (statSync_size backupPath) (\<lambda>stats_size.
            andThen (databaseManager_getDatabase E) (\<lambda>conn.
            andThen (count_loop E conn (select_table_names conn) 0 []) (\<lambda>counted.
              let backupData =
                    \<lparr>filename = backupFilename, path = backupPath, size_bytes = stats_size,
                     created_at = toISOString E, is_valid = True,
                     metadata = Some \<lparr>version = ''1.0.0'', record_count = fst counted,
                                      tables = snd counted\<rparr>\<rparr>
              in
              andThen (logAuditEvent
                         \<lparr>eventType = DATABASE_BACKUP_CREATED, userId = None,
                          resourceType = ''database'', resourceId = ''main'',
                          action = ''backup'', success = True,
                          details = None, errorMessage = None\<rparr>) (\<lambda>_.
              ret (successResponse backupData)))))))))"

definition backup_catch :: "err \<Rightarrow> (BackupMetadata IPCResponse, world) comp" where
  "backup_catch error =
     andThen (logAuditEvent
                \<lparr>eventType = DATABASE_BACKUP_CREATED, userId = None,
                 resourceType = ''database'', resourceId = ''main'',
                 action = ''backup'', success = False,
                 details = None, errorMessage = None\<rparr>) (\<lambda>_.
     ret (formatError error))"

text \<open>The handler takes no session id and does not go through the guard.\<close>

definition db_backup :: "env \<Rightarrow> (BackupMetadata IPCResponse, world) comp" where
  "db_backup E = tryCatch (backup_try E) backup_catch"

subsection \<open>\<open>db:migrate\<close>\<close>

text \<open>
  \<open>createBackup\<close> (\<open>src/db/backup.ts\<close>) and \<open>runMigrations\<close>, \<open>getMigrationStatus\<close>
  (\<open>src/db/migrate.ts\<close>) are imported by the handler and are not among the sources:
  they are parameters of the model, each free to change the world or to throw.
\<close>

record MigrationStatus =
  applied :: "string list"
  pending :: "string list"

record migrate_deps =
  createBackup :: "string \<Rightarrow> (BackupMetadata, world) comp"
  runMigrations :: "(unit, world) comp"
  getMigrationStatus :: "(MigrationStatus, world) comp"

datatype migrate_data = MigrateData nat nat string string

definition migrate_try :: "migrate_deps \<Rightarrow> (migrate_data IPCResponse, world) comp" where
  "migrate_try D =
     andThen (createBackup D ''pre_migration_backup'') (\<lambda>backup.
     andThen (runMigrations D) (\<lambda>_.
     andThen (getMigrationStatus D) (\<lambda>status.
     andThen (logAuditEvent
                \<lparr>eventType = DATABASE_MIGRATED, userId = None,
                 resourceType = ''database'', resourceId = ''main'',
                 action = ''migrate'', success = True,
                 details = Some [(''backupCreated'', filename backup),
                                 (''migrationsApplied'', digits (length (applied status))),
                                 (''migrationsPending'', digits (length (pending status)))],
                 errorMessage = None\<rparr>) (\<lambda>_.
     ret (successResponse
            (MigrateData (length (applied status)) (length (pending status)) (filename backup)
               ''Migrations completed successfully''))))))"

definition db_migrate :: "migrate_deps \<Rightarrow> (migrate_data IPCResponse, world) comp" where
  "db_migrate D = tryCatch (migrate_try D) (\<lambda>error. ret (formatError error))"

section \<open>The secure-storage handlers\<close>

text \<open>
  A JavaScript string is modelled by its sequence of code points; a code point in
  \<open>D800..DFFF\<close> is a lone surrogate. \<open>utf8_decode\<close> is \<open>buffer.toString("utf8")\<close>:
  the decoder replaces every maximal ill-formed subsequence by \<open>U+FFFD\<close>.
  \<open>utf8_encode\<close> is \<open>Buffer.from(string)\<close>, which writes \<open>U+FFFD\<close> for a lone
  surrogate.
\<close>

type_synonym jsstring = "nat list"

definition is_cont :: "8 word \<Rightarrow> bool" where
  "is_cont b = (0x80 \<le> b \<and> b \<le> 0xBF)"

definition second_ok3 :: "8 word \<Rightarrow> 8 word \<Rightarrow> bool" where
  "second_ok3 b c =
     (if b = 0xE0 then 0xA0 \<le> c \<and> c \<le> 0xBF
      else if b = 0xED then 0x80 \<le> c \<and> c \<le> 0x9F
      else is_cont c)"

definition second_ok4 :: "8 word \<Rightarrow> 8 word \<Rightarrow> bool" where
  "second_ok4 b c =
     (if b = 0xF0 then 0x90 \<le> c \<and> c \<le> 0xBF
      else if b = 0xF4 then 0x80 \<le> c \<and> c \<le> 0x8F
      else is_cont c)"

function utf8_decode :: "bytes \<Rightarrow> jsstring" where
  "utf8_decode [] = []"
| "utf8_decode (b # bs) =
     (if b < 0x80 then unat b # utf8_decode bs
      else if 0xC2 \<le> b \<and> b \<le> 0xDF then
        (case bs of
           [] \<Rightarrow> [0xFFFD]
         | c # r1 \<Rightarrow>
             if is_cont c then ((unat b - 0xC0) * 64 + (unat c - 0x80)) # utf8_decode r1
             else 0xFFFD # utf8_decode bs)
      else if 0xE0 \<le> b \<and> b \<le> 0xEF then
        (case bs of
           [] \<Rightarrow> [0xFFFD]
         | c # r1 \<Rightarrow>
             if second_ok3 b c then
               (case r1 of
                  [] \<Rightarrow> [0xFFFD]
                | d # r2 \<Rightarrow>
                    if is_cont d
                    then (((unat b - 0xE0) * 64 + (unat c - 0x80)) * 64 + (unat d - 0x80))
                         # utf8_decode r2
                    else 0xFFFD # utf8_decode r1)
             else 0xFFFD # utf8_decode bs)
      else if 0xF0 \<le> b \<and> b \<le> 0xF4 then
        (case bs of
           [] \<Rightarrow> [0xFFFD]
         | c # r1 \<Rightarrow>
             if second_ok4 b c then
               (case r1 of
                  [] \<Rightarrow> [0xFFFD]
                | d # r2 \<Rightarrow>
                    if is_cont d then
                      (case r2 of
                         [] \<Rightarrow> [0xFFFD]
                       | e # r3 \<Rightarrow>
                           if is_cont e
                           then ((((unat b - 0xF0) * 64 + (unat c - 0x80)) * 64
                                  + (unat d - 0x80)) * 64 + (unat e - 0x80))
                                # utf8_decode r3
                           else 0xFFFD # utf8_decode r2)
                    else 0xFFFD # utf8_decode r1)
             else 0xFFFD # utf8_decode bs)
      else 0xFFFD # utf8_decode bs)"
  by pat_completeness auto
termination
  by (relation "measure length") auto

definition encode_cp :: "nat \<Rightarrow> bytes" where
  "encode_cp c =
     (if c < 0x80 then [of_nat c]
      else if c < 0x800 then [of_nat (0xC0 + c div 64), of_nat (0x80 + c mod 64)]
      else if 0xD800 \<le> c \<and> c \<le> 0xDFFF then [0xEF, 0xBF, 0xBD]
      else if c < 0x10000
      then [of_nat (0xE0 + c div 4096), of_nat (0x80 + (c div 64) mod 64),
            of_nat (0x80 + c mod 64)]
      else [of_nat (0xF0 + c div 262144), of_nat (0x80 + (c div 4096) mod 64),
            of_nat (0x80 + (c div 64) mod 64), of_nat (0x80 + c mod 64)])"

definition utf8_encode :: "jsstring \<Rightarrow> bytes" where
  "utf8_encode s = concat (map encode_cp s)"

text \<open>
  The base64 text of a buffer is kept as the buffer it stands for: \<open>toString_base64\<close>
  is \<open>buf.toString("base64")\<close> and \<open>Buffer_from_base64\<close> is
  \<open>Buffer.from(text, "base64")\<close> on such a text.
\<close>

datatype base64 = Base64 bytes

definition toString_base64 :: "bytes \<Rightarrow> base64" where
  "toString_base64 bs = Base64 bs"

fun Buffer_from_base64 :: "base64 \<Rightarrow> bytes" where
  "Buffer_from_base64 (Base64 bs) = bs"

text \<open>
  Electron's \<open>safeStorage\<close>, as the handlers see it during one call:
  \<open>decryptString\<close> throws on a ciphertext it cannot authenticate.
\<close>

record safeStorage =
  isEncryptionAvailable :: bool
  encryptString :: "jsstring \<Rightarrow> bytes"
  decryptString :: "bytes \<Rightarrow> err + jsstring"

definition secure_storage_encrypt :: "safeStorage \<Rightarrow> jsstring \<Rightarrow> base64 IPCResponse" where
  "secure_storage_encrypt ss data =
     (if \<not> isEncryptionAvailable ss
      then formatError (EncryptionError ''encrypt'' ''Encryption not available on this platform'')
      else successResponse (toString_base64 (encryptString ss data)))"

definition secure_storage_decrypt :: "safeStorage \<Rightarrow> base64 \<Rightarrow> jsstring IPCResponse" where
  "secure_storage_decrypt ss encryptedData =
     (if \<not> isEncryptionAvailable ss
      then formatError (EncryptionError ''decrypt'' ''Encryption not available on this platform'')
      else
        (case decryptString ss (Buffer_from_base64 encryptedData) of
           Inl error \<Rightarrow> formatError error
         | Inr decrypted \<Rightarrow> successResponse decrypted))"

definition secure_storage_encryptBuffer :: "safeStorage \<Rightarrow> bytes \<Rightarrow> base64 IPCResponse" where
  "secure_storage_encryptBuffer ss buffer =
     (if \<not> isEncryptionAvailable ss
      then formatError (EncryptionError ''encrypt'' ''Encryption not available on this platform'')
      else successResponse (toString_base64 (encryptString ss (utf8_decode buffer))))"

definition secure_storage_decryptBuffer :: "safeStorage \<Rightarrow> base64 \<Rightarrow> base64 IPCResponse" where
  "secure_storage_decryptBuffer ss encryptedBuffer =
     (if \<not> isEncryptionAvailable ss
      then formatError (EncryptionError ''decrypt'' ''Encryption not available on this platform'')
      else
        (case decryptString ss (Buffer_from_base64 encryptedBuffer) of
           Inl error \<Rightarrow> formatError error
         | Inr decrypted \<Rightarrow> successResponse (toString_base64 (utf8_encode decrypted))))"

section \<open>The domain handlers\<close>

text \<open>
  The rows the domain handlers read and write. \<open>row_id\<close> and \<open>user_id\<close> are the
  columns \<open>id\<close> and \<open>user_id\<close> of the table \<open>cases\<close>; an evidence row belongs to
  the user who owns its case (\<open>case_id IN (SELECT id FROM cases WHERE user_id = ?)\<close>).
\<close>

record case_row =
  row_id :: int
  title :: string
  description :: "string option"
  caseType :: string
  status :: string
  createdAt :: string
  updatedAt :: string
  user_id :: nat

record evidence_row =
  evidence_id :: int
  case_id :: int

record notification =
  notification_id :: int
  notification_userId :: nat
  isRead :: bool

record consent_row =
  consent_userId :: nat
  consentType :: string

record store = ledger +
  cases :: "case_row list"
  evidence :: "evidence_row list"
  notifications :: "notification list"
  consents :: "consent_row list"
  tags :: "(int \<times> nat) list"
  evidence_tags :: "(int \<times> int) list"

text \<open>
  A JavaScript number is an integer or it is not (\<open>NaN\<close>, a fraction, an infinity); an
  IPC argument of type \<open>unknown\<close> is a string, a number or something else.
\<close>

datatype jsnumber = Integer int | NonInteger

datatype jsvalue = JString string | JNumber jsnumber | JUndefined

record case_input =
  in_title :: "string option"
  in_description :: "string option"
  in_caseType :: "string option"
  in_status :: "string option"

text \<open>
  What the domain handlers take from outside, beyond \<open>env\<close>: \<open>parseInt(s, 10)\<close>, the
  text of a value in a template literal or under \<open>String(...)\<close>, \<open>String(error)\<close>,
  SQLite's \<open>CURRENT_TIMESTAMP\<close>, and the Zod schemas of
  \<open>src/middleware/schemas/case-schemas.ts\<close>, which are not among the sources: each
  \<open>parse\<close> returns the validated value or throws.
\<close>

record denv = env +
  parseInt10 :: "string \<Rightarrow> jsnumber"
  template :: "jsvalue \<Rightarrow> string"
  String_error :: "err \<Rightarrow> string"
  CURRENT_TIMESTAMP :: string
  caseGetByIdSchema :: "jsvalue \<Rightarrow> err + int"
  caseUpdateSchema :: "jsvalue \<Rightarrow> case_input \<Rightarrow> err + (int \<times> case_input)"
  caseDeleteSchema :: "jsvalue \<Rightarrow> err + int"

definition int_toString :: "int \<Rightarrow> string" where
  "int_toString i = (if i < 0 then ''-'' @ digits (nat (- i)) else digits (nat i))"

text \<open>\<open>typeof id === "string" ? parseInt(id, 10) : id\<close>\<close>

definition numericId_of :: "'z denv_scheme \<Rightarrow> jsvalue \<Rightarrow> jsvalue" where
  "numericId_of J v = (case v of JString s \<Rightarrow> JNumber (parseInt10 J s) | _ \<Rightarrow> v)"

text \<open>\<open>SELECT ... FROM cases WHERE id = ? AND user_id = ?\<close>, first row or none.\<close>

definition select_case :: "int \<Rightarrow> nat \<Rightarrow> (case_row option, 'z store_scheme) comp" where
  "select_case i uid w = (Inr (find (\<lambda>c. row_id c = i \<and> user_id c = uid) (cases w)), w)"

subsection \<open>\<open>case:get\<close>\<close>

definition case_get_work ::
  "'y denv_scheme \<Rightarrow> jsvalue \<Rightarrow> nat \<Rightarrow> (case_row IPCResponse, 'z store_scheme) comp" where
  "case_get_work J ident uid =
     tryCatch
       (case caseGetByIdSchema J (numericId_of J ident) of
          Inl zodError \<Rightarrow> throw zodError
        | Inr validatedId \<Rightarrow>
            andThen (select_case validatedId uid) (\<lambda>caseData.
              case caseData of
                None \<Rightarrow>
                  throw (JsError (''Case with ID '' @ template J ident
                                   @ '' not found or unauthorized''))
              | Some c \<Rightarrow>
                  andThen (logAuditEvent
                             \<lparr>eventType = CASE_VIEWED, userId = Some (digits uid),
                              resourceType = ''case'', resourceId = int_toString (row_id c),
                              action = ''view'', success = True,
                              details = None, errorMessage = None\<rparr>) (\<lambda>_.
                  ret (successResponse c))))
       (\<lambda>error. throw error)"

definition case_get ::
  "'y denv_scheme \<Rightarrow> session_store \<Rightarrow> jsvalue \<Rightarrow> string \<Rightarrow> 'z store_scheme
     \<Rightarrow> case_row IPCResponse \<times> 'z store_scheme" where
  "case_get J S ident sessionId = withAuthorization S sessionId (case_get_work J ident)"

subsection \<open>\<open>case:update\<close>\<close>

text \<open>
  \<open>UPDATE cases SET ... WHERE id = ? AND user_id = ?\<close>: the fields present in the
  input, and always \<open>updated_at\<close>.
\<close>

definition update_row :: "'y denv_scheme \<Rightarrow> case_input \<Rightarrow> case_row \<Rightarrow> case_row" where
  "update_row J inp c =
     c\<lparr>title := (case in_title inp of None \<Rightarrow> title c | Some t \<Rightarrow> t),
       description := (case in_description inp of None \<Rightarrow> description c | Some d \<Rightarrow> Some d),
       caseType := (case in_caseType inp of None \<Rightarrow> caseType c | Some t \<Rightarrow> t),
       status := (case in_status inp of None \<Rightarrow> status c | Some t \<Rightarrow> t),
       updatedAt := CURRENT_TIMESTAMP J\<rparr>"

definition update_case :: "'y denv_scheme \<Rightarrow> int \<Rightarrow> nat \<Rightarrow> case_input \<Rightarrow> (unit, 'z store_scheme) comp" where
  "update_case J i uid inp w =
     (Inr (), w\<lparr>cases := map (\<lambda>c. if row_id c = i \<and> user_id c = uid then update_row J inp c else c)
                            (cases w)\<rparr>)"

definition input_keys :: "case_input \<Rightarrow> string list" where
  "input_keys inp =
     (case in_title inp of None \<Rightarrow> [] | Some _ \<Rightarrow> [''title''])
     @ (case in_description inp of None \<Rightarrow> [] | Some _ \<Rightarrow> [''description''])
     @ (case in_caseType inp of None \<Rightarrow> [] | Some _ \<Rightarrow> [''caseType''])
     @ (case in_status inp of None \<Rightarrow> [] | Some _ \<Rightarrow> [''status''])"

definition case_update_work ::
  "'y denv_scheme \<Rightarrow> jsvalue \<Rightarrow> case_input \<Rightarrow> nat
     \<Rightarrow> (case_row option IPCResponse, 'z store_scheme) comp" where
  "case_update_work J ident data uid =
     tryCatch
       (case caseUpdateSchema J (numericId_of J ident) data of
          Inl zodError \<Rightarrow> throw zodError
        | Inr (validatedId, validatedInput) \<Rightarrow>
            andThen (select_case validatedId uid) (\<lambda>existingCase.
              case existingCase of
                None \<Rightarrow> throw (CaseNotFoundError validatedId)
              | Some _ \<Rightarrow>
                  andThen (update_case J validatedId uid validatedInput) (\<lambda>_.
                  andThen (select_case validatedId uid) (\<lambda>updatedCase.
                  andThen (logAuditEvent
                             \<lparr>eventType = CASE_UPDATED, userId = Some (digits uid),
                              resourceType = ''case'', resourceId = int_toString validatedId,
                              action = ''update'', success = True,
                              details = Some (map (\<lambda>k. (''fieldsUpdated'', k))
                                                (input_keys validatedInput)),
                              errorMessage = None\<rparr>) (\<lambda>_.
                  ret (successResponse updatedCase))))))
       (\<lambda>error.
          andThen (logAuditEvent
                     \<lparr>eventType = CASE_UPDATED, userId = Some (digits uid),
                      resourceType = ''case'', resourceId = template J ident,
                      action = ''update'', success = False,
                      details = None, errorMessage = Some (String_error J error)\<rparr>) (\<lambda>_.
          throw error))"

definition case_update ::
  "'y denv_scheme \<Rightarrow> session_store \<Rightarrow> jsvalue \<Rightarrow> case_input \<Rightarrow> string \<Rightarrow> 'z store_scheme
     \<Rightarrow> case_row option IPCResponse \<times> 'z store_scheme" where
  "case_update J S ident data sessionId =
     withAuthorization S sessionId (case_update_work J ident data)"

subsection \<open>\<open>case:delete\<close>\<close>

text \<open>
  \<open>DELETE FROM cases WHERE id = ? AND user_id = ?\<close>; the result is \<open>changes\<close>, the
  number of rows deleted. The related evidence rows go with the case ("SQLite will
  cascade to related records via foreign keys").
\<close>

definition delete_case :: "int \<Rightarrow> nat \<Rightarrow> (nat, 'z store_scheme) comp" where
  "delete_case i uid w =
     (let hit = (\<lambda>c. row_id c = i \<and> user_id c = uid);
          changes = length (filter hit (cases w))
      in (Inr changes,
          w\<lparr>cases := filter (\<lambda>c. \<not> hit c) (cases w),
            evidence := (if changes = 0 then evidence w
                         else filter (\<lambda>e. case_id e \<noteq> i) (evidence w))\<rparr>))"

datatype case_deleted = CaseDeleted bool int

definition case_delete_work ::
  "'y denv_scheme \<Rightarrow> jsvalue \<Rightarrow> nat \<Rightarrow> (case_deleted IPCResponse, 'z store_scheme) comp" where
  "case_delete_work J ident uid =
     tryCatch
       (case caseDeleteSchema J (numericId_of J ident) of
          Inl zodError \<Rightarrow> throw zodError
        | Inr validatedId \<Rightarrow>
            andThen (select_case validatedId uid) (\<lambda>existingCase.
              case existingCase of
                None \<Rightarrow> throw (CaseNotFoundError validatedId)
              | Some _ \<Rightarrow>
                  andThen (delete_case validatedId uid) (\<lambda>changes.
                    if changes = 0 then throw (CaseNotFoundError validatedId)
                    else
                      andThen (logAuditEvent
                                 \<lparr>eventType = CASE_DELETED, userId = Some (digits uid),
                                  resourceType = ''case'', resourceId = int_toString validatedId,
                                  action = ''delete'', success = True,
                                  details = None, errorMessage = None\<rparr>) (\<lambda>_.
                      ret (successResponse (CaseDeleted True validatedId))))))
       (\<lambda>error.
          andThen (logAuditEvent
                     \<lparr>eventType = CASE_DELETED, userId = Some (digits uid),
                      resourceType = ''case'', resourceId = template J ident,
                      action = ''delete'', success = False,
                      details = None, errorMessage = Some (String_error J error)\<rparr>) (\<lambda>_.
          throw error))"

definition case_delete ::
  "'y denv_scheme \<Rightarrow> session_store \<Rightarrow> jsvalue \<Rightarrow> string \<Rightarrow> 'z store_scheme
     \<Rightarrow> case_deleted IPCResponse \<times> 'z store_scheme" where
  "case_delete J S ident sessionId = withAuthorization S sessionId (case_delete_work J ident)"

subsection \<open>\<open>notifications:mark-read\<close>\<close>

text \<open>
  \<open>NotificationService\<close> is not among the sources. Of it the handler uses
  \<open>getNotificationById\<close>, the row with that id or \<open>null\<close>, and \<open>markAsRead\<close>,
  which sets the flag of that row.
\<close>

definition getNotificationById :: "int \<Rightarrow> (notification option, 'z store_scheme) comp" where
  "getNotificationById i w = (Inr (find (\<lambda>n. notification_id n = i) (notifications w)), w)"

definition markAsRead :: "int \<Rightarrow> (unit, 'z store_scheme) comp" where
  "markAsRead i w =
     (Inr (), w\<lparr>notifications :=
                  map (\<lambda>n. if notification_id n = i then n\<lparr>isRead := True\<rparr> else n)
                    (notifications w)\<rparr>)"

definition mark_read_catch :: "'y denv_scheme \<Rightarrow> int \<Rightarrow> err \<Rightarrow> (unit IPCResponse, 's) comp" where
  "mark_read_catch J notificationId error =
     (let message = toLowerCase (err_message J error) in
      if str_includes message ''database'' \<or> str_includes message ''sqlite''
      then throw (DatabaseError ''mark notification as read'' (err_message J error))
      else if str_includes message ''not found'' \<or> str_includes message ''access denied''
      then throw (NotificationNotFoundError notificationId)
      else throw error)"

definition mark_read_work ::
  "'y denv_scheme \<Rightarrow> int \<Rightarrow> nat \<Rightarrow> (unit IPCResponse, 'z store_scheme) comp" where
  "mark_read_work J notificationId uid =
     tryCatch
       (andThen (getNotificationById notificationId) (\<lambda>found.
          case found of
            None \<Rightarrow> throw (NotificationNotFoundError notificationId)
          | Some n \<Rightarrow>
              if notification_userId n \<noteq> uid
              then throw (NotificationNotFoundError notificationId)
              else andThen (markAsRead notificationId) (\<lambda>_. ret (successResponse ()))))
       (mark_read_catch J notificationId)"

definition notifications_mark_read ::
  "'y denv_scheme \<Rightarrow> session_store \<Rightarrow> string \<Rightarrow> int \<Rightarrow> 'z store_scheme
     \<Rightarrow> unit IPCResponse \<times> 'z store_scheme" where
  "notifications_mark_read J S sessionId notificationId =
     withAuthorization S sessionId (mark_read_work J notificationId)"

subsection \<open>\<open>templates:delete\<close>\<close>

text \<open>
  \<open>TemplateService.deleteTemplate(id, userId)\<close> (\<open>src/services/TemplateService.ts\<close>)
  is not among the sources: it is a parameter of the handler, free to change the state
  or to throw, and answers whether a template was deleted. The \<open>catch\<close> block tells
  an error whose message contains \<open>not found\<close> from one whose message contains
  \<open>access denied\<close>.
\<close>

definition templates_delete_catch :: "'y denv_scheme \<Rightarrow> int \<Rightarrow> err \<Rightarrow> (unit IPCResponse, 's) comp" where
  "templates_delete_catch J ident error =
     (let message = toLowerCase (err_message J error) in
      if str_includes message ''database'' \<or> str_includes message ''sqlite''
      then throw (DatabaseError ''delete template'' (err_message J error))
      else if str_includes message ''not found''
      then throw (TemplateNotFoundError
                    (''Template '' @ template J (JNumber (Integer ident)) @ '' not found''))
      else if str_includes message ''access denied''
      then throw (ValidationError ''Access denied: You can only delete your own templates'')
      else throw error)"

definition templates_delete_work ::
  "'y denv_scheme \<Rightarrow> (int \<Rightarrow> nat \<Rightarrow> (bool, 's) comp) \<Rightarrow> int \<Rightarrow> nat
     \<Rightarrow> (unit IPCResponse, 's) comp" where
  "templates_delete_work J deleteTemplate ident uid =
     tryCatch
       (andThen (deleteTemplate ident uid) (\<lambda>deleted.
          if \<not> deleted
          then throw (TemplateNotFoundError
                        (''Template '' @ template J (JNumber (Integer ident)) @ '' not found''))
          else ret (Success ())))
       (templates_delete_catch J ident)"

definition templates_delete ::
  "'y denv_scheme \<Rightarrow> session_store \<Rightarrow> (int \<Rightarrow> nat \<Rightarrow> (bool, 's) comp) \<Rightarrow> int \<Rightarrow> string
     \<Rightarrow> 's \<Rightarrow> unit IPCResponse \<times> 's" where
  "templates_delete J S deleteTemplate ident sessionId =
     withAuthorization S sessionId (templates_delete_work J deleteTemplate ident)"

subsection \<open>\<open>tags:tagEvidence\<close>\<close>

text \<open>
  \<open>tagService.tagEvidence(evidenceId, tagId, userId)\<close> (\<open>src/services/TagService.ts\<close>)
  is not among the sources: the per-item operation \<open>svc\<close> is a parameter of the
  handler, free to change the store or to throw. The handler's arguments are taken
  after \<open>Number(...)\<close>; \<open>evidenceIdText\<close> is the text of the raw \<open>evidenceId\<close> in the
  template literal of the \<open>catch\<close> block.
\<close>

definition tag_item ::
  "(int \<Rightarrow> int \<Rightarrow> nat \<Rightarrow> (unit, 's) comp) \<Rightarrow> int \<Rightarrow> nat \<Rightarrow> jsnumber \<Rightarrow> (unit, 's) comp" where
  "tag_item svc numericEvidenceId uid tagId =
     (case tagId of
        NonInteger \<Rightarrow> throw (ValidationError ''Tag IDs must be integers'')
      | Integer t \<Rightarrow> svc numericEvidenceId t uid)"

fun tag_loop ::
  "(int \<Rightarrow> int \<Rightarrow> nat \<Rightarrow> (unit, 's) comp) \<Rightarrow> int \<Rightarrow> nat \<Rightarrow> jsnumber list \<Rightarrow> (unit, 's) comp" where
  "tag_loop svc numericEvidenceId uid [] = ret ()"
| "tag_loop svc numericEvidenceId uid (tagId # rest) =
     andThen (tag_item svc numericEvidenceId uid tagId) (\<lambda>_.
       tag_loop svc numericEvidenceId uid rest)"

definition tagEvidence_catch :: "'y denv_scheme \<Rightarrow> string \<Rightarrow> err \<Rightarrow> (unit IPCResponse, 's) comp" where
  "tagEvidence_catch J evidenceIdText error =
     (let message = toLowerCase (err_message J error) in
      if str_includes message ''database'' \<or> str_includes message ''sqlite''
      then throw (DatabaseError ''tag evidence'' (err_message J error))
      else if str_includes message ''evidence'' \<and> str_includes message ''not found''
      then throw (EvidenceNotFoundError (''Evidence '' @ evidenceIdText @ '' not found''))
      else if str_includes message ''tag'' \<and> str_includes message ''not found''
      then throw (ValidationError ''One or more tags not found'')
      else throw error)"

definition tagEvidence_work ::
  "'y denv_scheme \<Rightarrow> (int \<Rightarrow> int \<Rightarrow> nat \<Rightarrow> (unit, 's) comp) \<Rightarrow> string \<Rightarrow> jsnumber
     \<Rightarrow> jsnumber list \<Rightarrow> nat \<Rightarrow> (unit IPCResponse, 's) comp" where
  "tagEvidence_work J svc evidenceIdText numericEvidenceId numericTagIds uid =
     tryCatch
       (case numericEvidenceId of
          NonInteger \<Rightarrow> throw (ValidationError ''Valid evidence ID is required'')
        | Integer ev \<Rightarrow>
            if length numericTagIds = 0
            then throw (ValidationError ''At least one tag ID is required'')
            else andThen (tag_loop svc ev uid numericTagIds) (\<lambda>_. ret (successResponse ())))
       (tagEvidence_catch J evidenceIdText)"

definition tags_tagEvidence ::
  "'y denv_scheme \<Rightarrow> session_store \<Rightarrow> (int \<Rightarrow> int \<Rightarrow> nat \<Rightarrow> (unit, 's) comp) \<Rightarrow> string
     \<Rightarrow> jsnumber \<Rightarrow> jsnumber list \<Rightarrow> string \<Rightarrow> 's \<Rightarrow> unit IPCResponse \<times> 's" where
  "tags_tagEvidence J S svc evidenceIdText numericEvidenceId numericTagIds sessionId =
     withAuthorization S sessionId
       (tagEvidence_work J svc evidenceIdText numericEvidenceId numericTagIds)"

text \<open>
  Modelled from the spec: \<open>TagService.tagEvidence\<close> is not among the sources. By
  section 4.2 of the spec the ownership check is made per item: it fails with
  \<open>ResourceNotFound\<close> when the resource does not exist and with \<open>Forbidden\<close> when it
  belongs to a different user; only then is the write applied. The resources of a
  tagging are the evidence item (owned through its case) and the tag.
\<close>

definition evidence_owner :: "'z store_scheme \<Rightarrow> int \<Rightarrow> nat option" where
  "evidence_owner w evidenceId =
     (case find (\<lambda>e. evidence_id e = evidenceId) (evidence w) of
        None \<Rightarrow> None
      | Some e \<Rightarrow> map_option user_id (find (\<lambda>c. row_id c = case_id e) (cases w)))"

definition verifyOwnership :: "nat option \<Rightarrow> nat \<Rightarrow> (unit, 's) comp" where
  "verifyOwnership owner uid =
     (case owner of
        None \<Rightarrow> throw ResourceNotFound
      | Some u \<Rightarrow> if u \<noteq> uid then throw Forbidden else ret ())"

definition tagService_tagEvidence :: "int \<Rightarrow> int \<Rightarrow> nat \<Rightarrow> (unit, 'z store_scheme) comp" where
  "tagService_tagEvidence evidenceId tagId uid =
     (\<lambda>w. andThen (verifyOwnership (evidence_owner w evidenceId) uid) (\<lambda>_.
           andThen (verifyOwnership (map_of (tags w) tagId) uid) (\<lambda>_.
           (\<lambda>w'. (Inr (), w'\<lparr>evidence_tags := evidence_tags w' @ [(evidenceId, tagId)]\<rparr>)))) w)"

subsection \<open>\<open>gdpr:delete\<close>\<close>

record gdpr_options =
  confirmed :: bool
  exportBeforeDelete :: "bool option"
  reason :: "string option"

record deletion_result =
  deletion_success :: bool
  deletedCounts :: "(string \<times> nat) list"
  preservedAuditLogs :: nat
  preservedConsents :: nat

text \<open>
  Modelled from the spec: \<open>GdprService.deleteUserData\<close>
  (\<open>src/services/gdpr/GdprService.ts\<close>) is not among the sources. By sections 6 and 8
  of the spec the "delete all user data" operation removes the user's case and
  evidence rows and explicitly preserves the audit-log and consent records: these two
  tables are exempt from deletion. The result reports the rows deleted per table and
  the number of preserved audit-log and consent rows of the user.
\<close>

definition owned_case_ids :: "'z store_scheme \<Rightarrow> nat \<Rightarrow> int list" where
  "owned_case_ids w uid = map row_id (filter (\<lambda>c. user_id c = uid) (cases w))"

definition GdprService_deleteUserData ::
  "nat \<Rightarrow> gdpr_options \<Rightarrow> (deletion_result, 'z store_scheme) comp" where
  "GdprService_deleteUserData uid opts w =
     (let goneCases = filter (\<lambda>c. user_id c = uid) (cases w);
          goneEvidence = filter (\<lambda>e. case_id e \<in> set (owned_case_ids w uid)) (evidence w)
      in (Inr \<lparr>deletion_success = True,
               deletedCounts = [(''cases'', length goneCases),
                                (''evidence'', length goneEvidence)],
               preservedAuditLogs =
                 length (filter (\<lambda>ev. userId ev = Some (digits uid)) (audit w)),
               preservedConsents =
                 length (filter (\<lambda>c. consent_userId c = uid) (consents w))\<rparr>,
          w\<lparr>cases := filter (\<lambda>c. user_id c \<noteq> uid) (cases w),
            evidence := filter (\<lambda>e. case_id e \<notin> set (owned_case_ids w uid)) (evidence w)\<rparr>))"

definition gdpr_delete_catch :: "'y denv_scheme \<Rightarrow> nat \<Rightarrow> err \<Rightarrow> (deletion_result IPCResponse, 's) comp" where
  "gdpr_delete_catch J uid error =
     (let message = toLowerCase (err_message J error) in
      if str_includes message ''rate limit''
      then throw (GdprComplianceError 17 ''Right to erasure'' ''Deletion rate limit exceeded'')
      else if str_includes message ''consent''
      then throw (ConsentRequiredError ''data_erasure_request'' ''delete user data'')
      else throw (DataDeletionError (err_message J error) uid))"

definition gdpr_delete_work ::
  "'y denv_scheme \<Rightarrow> gdpr_options option \<Rightarrow> nat
     \<Rightarrow> (deletion_result IPCResponse, 'z store_scheme) comp" where
  "gdpr_delete_work J options uid =
     tryCatch
       (case options of
          None \<Rightarrow>
            throw (GdprComplianceError 17 ''Right to erasure''
                     ''Deletion requires explicit confirmation'')
        | Some opts \<Rightarrow>
            if \<not> confirmed opts
            then throw (GdprComplianceError 17 ''Right to erasure''
                          ''Deletion requires explicit confirmation'')
            else
              andThen (GdprService_deleteUserData uid
                         \<lparr>confirmed = True,
                          exportBeforeDelete =
                            Some (case exportBeforeDelete opts of None \<Rightarrow> False | Some b \<Rightarrow> b),
                          reason = reason opts\<rparr>) (\<lambda>result.
              ret (successResponse result)))
       (gdpr_delete_catch J uid)"

definition gdpr_delete ::
  "'y denv_scheme \<Rightarrow> session_store \<Rightarrow> string \<Rightarrow> gdpr_options option \<Rightarrow> 'z store_scheme
     \<Rightarrow> deletion_result IPCResponse \<times> 'z store_scheme" where
  "gdpr_delete J S sessionId options = withAuthorization S sessionId (gdpr_delete_work J options)"

section \<open>Notions used in the statements\<close>

text \<open>
  The backup directory, the calls a run has made (\<open>performed\<close>) and the audit events
  it has recorded (\<open>recorded\<close>), read off the worlds before and after.
\<close>

definition backupDirOf :: "env \<Rightarrow> fpath" where
  "backupDirOf E = path_join E (userData E) ''backups''"

definition performed :: "world \<Rightarrow> world \<Rightarrow> fsop list" where
  "performed w w' = drop (length (ops w)) (ops w')"

definition recorded :: "'z ledger_scheme \<Rightarrow> 'z ledger_scheme \<Rightarrow> audit_event list" where
  "recorded w w' = drop (length (audit w)) (audit w')"

text \<open>
  The spec's \<open>PathTraversal\<close> is, in the code, a \<open>DatabaseError\<close> with one of the two
  messages of the filename validation.
\<close>

definition PathTraversal :: "err \<Rightarrow> bool" where
  "PathTraversal e =
     (case e of
        DatabaseError operation m \<Rightarrow>
          m = ''Invalid backup filename - path traversal not allowed''
          \<or> m = ''Invalid backup path - outside backup directory''
      | _ \<Rightarrow> False)"

text \<open>
  A filename escapes the backup directory when it contains a path separator or a
  \<open>..\<close> sequence, or when its resolved path does not start with the resolved backup
  directory.
\<close>

definition escapes :: "env \<Rightarrow> string \<Rightarrow> bool" where
  "escapes E backupFilename =
     (str_includes backupFilename ''/'' \<or> str_includes backupFilename [CHR 0x5C]
      \<or> str_includes backupFilename ''..''
      \<or> \<not> startsWith (path_resolve E (path_join E (backupDirOf E) backupFilename))
                        (path_resolve E (backupDirOf E)))"

text \<open>
  The error thrown by the filename validation of the operation named \<open>operation\<close>:
  the first message for a separator or a \<open>..\<close> sequence in the name, the second for
  a resolved path outside the backup directory.
\<close>

definition traversal_error :: "string \<Rightarrow> string \<Rightarrow> err" where
  "traversal_error operation backupFilename =
     DatabaseError operation
       (if str_includes backupFilename ''/'' \<or> str_includes backupFilename [CHR 0x5C]
           \<or> str_includes backupFilename ''..''
        then ''Invalid backup filename - path traversal not allowed''
        else ''Invalid backup path - outside backup directory'')"

text \<open>The backup directory exists or can be created by \<open>getBackupDir\<close>.\<close>

definition backupDir_available :: "env \<Rightarrow> world \<Rightarrow> bool" where
  "backupDir_available E w =
     (backupDirOf E \<in> dom (files w) \<or> backupDirOf E \<in> dirs w \<or> backupDirOf E \<notin> unwritable w)"

subsection \<open>A concrete environment and world\<close>

text \<open>
  User data under \<open>/u\<close>, paths joined with \<open>/\<close>; the file \<open>[1]\<close> is a store with one
  row, \<open>[2]\<close> a store with two rows and SQLite's own sequence table, any other file
  is not a store. The count statement is accepted for a table name made of lower-case
  letters and underscores, and answers with the rows of that table; for any other name
  (one with a space or a hyphen, which would need quotes) it throws.
\<close>

definition plain_name :: "string \<Rightarrow> bool" where
  "plain_name name =
     (name \<noteq> [] \<and> list_all (\<lambda>c. c \<in> set ''abcdefghijklmnopqrstuvwxyz_'') name)"

definition count_plain :: "table list \<Rightarrow> string \<Rightarrow> err + nat" where
  "count_plain conn name =
     (if plain_name name
      then (case map_of conn name of
              None \<Rightarrow> Inl (SystemError ''SQLITE_ERROR'' name)
            | Some n \<Rightarrow> Inr n)
      else Inl (SystemError ''SQLITE_ERROR'' name))"

definition E0 :: env where
  "E0 = \<lparr>userData = ''/u'', path_join = (\<lambda>a b. a @ ''/'' @ b), path_resolve = (\<lambda>p. p),
          toISOString = ''2025-01-02T03:04:05.678Z'', err_message = (\<lambda>e. ''failed''),
          sqlite_tables = (\<lambda>bs. if bs = [1] then Some [(''cases'', 1)]
                                 else if bs = [2] then Some [(''cases'', 2), (''sqlite_sequence'', 1)]
                                 else None),
          sqlite_count = count_plain\<rparr>"

text \<open>
  The environment \<open>E0\<close> with a \<open>path.resolve\<close> under which the name \<open>link.db\<close> in the
  backup directory resolves to a path outside it.
\<close>

definition E1 :: env where
  "E1 = E0\<lparr>path_resolve := (\<lambda>p. if p = ''/u/backups/link.db'' then ''/etc/passwd'' else p)\<rparr>"

definition w0 :: world where
  "w0 = \<lparr>audit = [], files = [''/u/justice.db'' \<mapsto> [1], ''/u/backups/b.db'' \<mapsto> [2],
                                ''/u/backups/junk.db'' \<mapsto> [9]],
          dirs = {''/u/backups''}, unwritable = {}, db = Open [(''cases'', 1)], ops = []\<rparr>"

text \<open>
  The path of the backup named by a filename, and of the pre-restore snapshot; a path
  holds a well-formed store when there is a file and its content is a store in
  SQLite's format.
\<close>

definition target_path :: "env \<Rightarrow> string \<Rightarrow> fpath" where
  "target_path E backupFilename = path_join E (backupDirOf E) backupFilename"

definition snapshot_path :: "env \<Rightarrow> fpath" where
  "snapshot_path E = path_join E (backupDirOf E) (''pre-restore_'' @ formatTimestamp E @ ''.db'')"

definition well_formed_store :: "env \<Rightarrow> world \<Rightarrow> fpath \<Rightarrow> bool" where
  "well_formed_store E w p =
     (case files w p of None \<Rightarrow> False | Some bs \<Rightarrow> sqlite_tables E bs \<noteq> None)"

text \<open>
  The calls of a complete restore, in their order: \<open>mk\<close> says whether the backup
  directory had to be created, \<open>snap\<close> whether there was a primary store to
  snapshot. \<open>swap_sequence\<close> is its last part, the calls of \<open>restore_swap\<close>.
\<close>

definition swap_sequence :: "fpath \<Rightarrow> fpath \<Rightarrow> fpath \<Rightarrow> bool \<Rightarrow> fsop list" where
  "swap_sequence mainDbPath snapshot backupPath snap =
     [ExistsSync mainDbPath] @ (if snap then [CopyFileSync mainDbPath snapshot] else [])
     @ [DbClose, CopyFileSync backupPath mainDbPath, DbGetDatabase]"

definition restore_sequence :: "env \<Rightarrow> string \<Rightarrow> bool \<Rightarrow> bool \<Rightarrow> fsop list" where
  "restore_sequence E backupFilename mk snap =
     [ExistsSync (backupDirOf E)] @ (if mk then [MkdirSync (backupDirOf E)] else [])
     @ [ExistsSync (target_path E backupFilename), OpenReadonly (target_path E backupFilename)]
     @ swap_sequence (getMainDbPath E) (snapshot_path E) (target_path E backupFilename) snap"

text \<open>The two audit events of \<open>db:restore\<close>.\<close>

definition restore_success_event :: "string \<Rightarrow> nat \<Rightarrow> audit_event" where
  "restore_success_event backupFilename uid =
     \<lparr>eventType = DATABASE_BACKUP_RESTORED, userId = Some (digits uid),
      resourceType = ''database'', resourceId = ''main'',
      action = ''restore'', success = True,
      details = Some [(''backupFilename'', backupFilename)],
      errorMessage = None\<rparr>"

definition restore_failure_event :: "env \<Rightarrow> string \<Rightarrow> nat \<Rightarrow> err \<Rightarrow> audit_event" where
  "restore_failure_event E backupFilename uid e =
     \<lparr>eventType = DATABASE_BACKUP_RESTORED, userId = Some (digits uid),
      resourceType = ''database'', resourceId = ''main'',
      action = ''restore'', success = False,
      details = Some [(''backupFilename'', backupFilename), (''error'', err_message E e)],
      errorMessage = None\<rparr>"

definition succeeded :: "'a IPCResponse \<Rightarrow> bool" where
  "succeeded r = (case r of Success _ \<Rightarrow> True | Failure _ \<Rightarrow> False)"

text \<open>The world \<open>w0\<close> with a primary store file that cannot be written.\<close>

definition w_readonly_main :: world where
  "w_readonly_main = w0\<lparr>unwritable := {''/u/justice.db''}\<rparr>"

text \<open>
  A world without a backup directory: in \<open>w_fresh\<close> it can be created, in
  \<open>w_no_backup_dir\<close> it cannot.
\<close>

definition w_fresh :: world where
  "w_fresh = \<lparr>audit = [], files = [''/u/justice.db'' \<mapsto> [1]], dirs = {}, unwritable = {},
               db = Open [(''cases'', 1)], ops = []\<rparr>"

definition w_no_backup_dir :: world where
  "w_no_backup_dir = w_fresh\<lparr>unwritable := {''/u/backups''}\<rparr>"

text \<open>The world \<open>w0\<close> with a directory named \<open>d.db\<close> in the backup directory.\<close>

definition w_dir_backup :: world where
  "w_dir_backup = w0\<lparr>dirs := {''/u/backups'', ''/u/backups/d.db''}\<rparr>"

text \<open>The world \<open>w0\<close> whose store has a table with a space in its name.\<close>

definition w_spaced_table :: world where
  "w_spaced_table = w0\<lparr>db := Open [(''cases'', 1), (''case notes'', 2)]\<rparr>"

text \<open>The name and the path of the backup that \<open>db:backup\<close> writes.\<close>

definition backup_filename :: "env \<Rightarrow> string" where
  "backup_filename E = ''backup_'' @ formatTimestamp E @ ''.db''"

definition backup_path :: "env \<Rightarrow> fpath" where
  "backup_path E = path_join E (backupDirOf E) (backup_filename E)"

text \<open>
  The tables that the backup lists, those that are not SQLite's own, and what the
  counting loop comes to on a connection, as a function of the names it is given: the
  total and the names, or the error of the first statement that throws.
\<close>

definition listed_tables :: "table list \<Rightarrow> table list" where
  "listed_tables conn = filter (\<lambda>t. \<not> like_sqlite (fst t)) conn"

fun counted ::
  "env \<Rightarrow> table list \<Rightarrow> string list \<Rightarrow> nat \<Rightarrow> string list \<Rightarrow> err + (nat \<times> string list)" where
  "counted E conn [] totalRecords tableNames = Inr (totalRecords, tableNames)"
| "counted E conn (name # rest) totalRecords tableNames =
     (case sqlite_count E conn name of
        Inl e \<Rightarrow> Inl e
      | Inr count \<Rightarrow> counted E conn rest (totalRecords + count) (tableNames @ [name]))"

text \<open>The audit events of \<open>db:backup\<close> and \<open>db:deleteBackup\<close>.\<close>

definition backup_event :: "bool \<Rightarrow> audit_event" where
  "backup_event ok =
     \<lparr>eventType = DATABASE_BACKUP_CREATED, userId = None,
      resourceType = ''database'', resourceId = ''main'',
      action = ''backup'', success = ok, details = None, errorMessage = None\<rparr>"

definition delete_success_event :: "string \<Rightarrow> nat \<Rightarrow> audit_event" where
  "delete_success_event backupFilename uid =
     \<lparr>eventType = DATABASE_BACKUP_DELETED, userId = Some (digits uid),
      resourceType = ''database'', resourceId = backupFilename,
      action = ''delete'', success = True,
      details = Some [(''backupFilename'', backupFilename)],
      errorMessage = None\<rparr>"

definition delete_failure_event :: "env \<Rightarrow> string \<Rightarrow> nat \<Rightarrow> err \<Rightarrow> audit_event" where
  "delete_failure_event E backupFilename uid e =
     \<lparr>eventType = DATABASE_BACKUP_DELETED, userId = Some (digits uid),
      resourceType = ''database'', resourceId = backupFilename,
      action = ''delete'', success = False,
      details = Some [(''error'', err_message E e)],
      errorMessage = None\<rparr>"

text \<open>
  The terminal event as section 4.4 of the spec words it: \<open>success:true\<close> with a
  details payload for an attempt that succeeded, \<open>success:false\<close> with an
  \<open>errorMessage\<close> for one that failed.
\<close>

definition terminal_event_as_specified :: "bool \<Rightarrow> audit_event \<Rightarrow> bool" where
  "terminal_event_as_specified ok ev =
     (if ok then success ev \<and> details ev \<noteq> None
      else \<not> success ev \<and> errorMessage ev \<noteq> None)"

text \<open>
  The world \<open>w0\<close> without a primary store file; the world \<open>w0\<close> whose connection
  sees three rows where the primary store file holds one (the other two are not yet
  in the file); migration collaborators that succeed.
\<close>

definition w_no_primary :: world where
  "w_no_primary = w0\<lparr>files := [''/u/backups/b.db'' \<mapsto> [2]]\<rparr>"

definition w_ahead :: world where
  "w_ahead = w0\<lparr>db := Open [(''cases'', 3)]\<rparr>"

definition D0 :: migrate_deps where
  "D0 = \<lparr>createBackup =
            (\<lambda>label. ret \<lparr>filename = label @ ''.db'', path = ''/u/backups/'' @ label @ ''.db'',
                            size_bytes = 1, created_at = ''2025-01-02T03:04:05.678Z'',
                            is_valid = True, metadata = None\<rparr>),
          runMigrations = ret (),
          getMigrationStatus = ret \<lparr>applied = [''001_init''], pending = []\<rparr>\<rparr>"

text \<open>A session store with one user and one session, which has expired.\<close>

definition S_expired :: session_store where
  "S_expired = \<lparr>sessions = [''s1'' \<mapsto> \<lparr>session_userId = 7, expiresAt = 10\<rparr>],
                 users = {7}, now = 11\<rparr>"

text \<open>An instance of \<open>safeStorage\<close> that is exact on strings.\<close>

definition ss0 :: safeStorage where
  "ss0 = \<lparr>isEncryptionAvailable = True,
           encryptString = (\<lambda>s. rev (utf8_encode s)),
           decryptString = (\<lambda>bs. Inr (utf8_decode (rev bs)))\<rparr>"

subsection \<open>A concrete store\<close>

text \<open>
  The environment \<open>E0\<close> with what the domain handlers need: ids are positive
  integers, every error has the message \<open>failed\<close>. In the store \<open>s0\<close> user 7 owns
  case 1 with the evidence item 10 and the tag 1; user 8 owns case 2, the evidence item
  20 and notification 5. There is no tag 2, no case 3 and no notification 6.
\<close>

definition positive_id :: "jsvalue \<Rightarrow> err + int" where
  "positive_id v =
     (case v of
        JNumber (Integer i) \<Rightarrow> if 0 < i then Inr i else Inl (ValidationError ''id'')
      | _ \<Rightarrow> Inl (ValidationError ''id''))"

definition J0 :: denv where
  "J0 = \<lparr>userData = ''/u'', path_join = (\<lambda>a b. a @ ''/'' @ b), path_resolve = (\<lambda>p. p),
          toISOString = ''2025-01-02T03:04:05.678Z'', err_message = (\<lambda>e. ''failed''),
          sqlite_tables = (\<lambda>bs. None), sqlite_count = count_plain,
          parseInt10 = (\<lambda>s. NonInteger),
          template = (\<lambda>v. case v of JNumber (Integer i) \<Rightarrow> int_toString i | _ \<Rightarrow> ''NaN''),
          String_error = (\<lambda>e. ''Error: failed''),
          CURRENT_TIMESTAMP = ''2025-01-02 03:04:05'',
          caseGetByIdSchema = positive_id,
          caseUpdateSchema = (\<lambda>v inp. map_sum id (\<lambda>i. (i, inp)) (positive_id v)),
          caseDeleteSchema = positive_id\<rparr>"

definition s0 :: store where
  "s0 = \<lparr>audit = [\<lparr>eventType = CASE_VIEWED, userId = Some ''7'', resourceType = ''case'',
                     resourceId = ''1'', action = ''view'', success = True,
                     details = None, errorMessage = None\<rparr>],
          cases = [\<lparr>row_id = 1, title = ''A'', description = None, caseType = ''housing'',
                     status = ''active'', createdAt = ''t0'', updatedAt = ''t0'', user_id = 7\<rparr>,
                   \<lparr>row_id = 2, title = ''B'', description = None, caseType = ''debt'',
                     status = ''active'', createdAt = ''t0'', updatedAt = ''t0'', user_id = 8\<rparr>],
          evidence = [\<lparr>evidence_id = 10, case_id = 1\<rparr>, \<lparr>evidence_id = 20, case_id = 2\<rparr>],
          notifications = [\<lparr>notification_id = 5, notification_userId = 8, isRead = False\<rparr>],
          consents = [\<lparr>consent_userId = 7, consentType = ''data_processing''\<rparr>],
          tags = [(1, 7)],
          evidence_tags = []\<rparr>"

definition S0 :: session_store where
  "S0 = \<lparr>sessions = [''s7'' \<mapsto> \<lparr>session_userId = 7, expiresAt = 100\<rparr>],
          users = {7, 8}, now = 11\<rparr>"

text \<open>The store \<open>s0\<close> without case 2 and without notification 5.\<close>

definition s_without :: store where
  "s_without = s0\<lparr>cases := [\<lparr>row_id = 1, title = ''A'', description = None,
                                caseType = ''housing'', status = ''active'', createdAt = ''t0'',
                                updatedAt = ''t0'', user_id = 7\<rparr>],
                   notifications := []\<rparr>"


definition message_of :: "err \<Rightarrow> string" where
  "message_of e =
     (case e of
        JsError m \<Rightarrow> m
      | ValidationError m \<Rightarrow> m
      | TemplateNotFoundError m \<Rightarrow> m
      | _ \<Rightarrow> ''failed'')"

definition J1 :: denv where
  "J1 = J0\<lparr>err_message := message_of\<rparr>"


section \<open>Properties\<close>

subsection \<open>Auxiliary facts\<close>

lemma getBackupDir_eq:
  "getBackupDir E w =
     (if backupDirOf E \<in> dom (files w) \<or> backupDirOf E \<in> dirs w
      then (Inr (backupDirOf E), logged (ExistsSync (backupDirOf E)) w)
      else if backupDirOf E \<in> unwritable w
      then (Inl (SystemError ''EACCES'' (backupDirOf E)),
            logged (MkdirSync (backupDirOf E)) (logged (ExistsSync (backupDirOf E)) w))
      else (Inr (backupDirOf E),
            logged (MkdirSync (backupDirOf E))
              ((logged (ExistsSync (backupDirOf E)) w)\<lparr>dirs := insert (backupDirOf E) (dirs w)\<rparr>)))"
  by (simp add: getBackupDir_def backupDirOf_def Let_def andThen_def existsSync_def mkdirSync_def
      ret_def logged_def)

lemma E0_simps [simp]:
  "userData E0 = ''/u''" "path_join E0 = (\<lambda>a b. a @ ''/'' @ b)" "path_resolve E0 = (\<lambda>p. p)"
  "toISOString E0 = ''2025-01-02T03:04:05.678Z''" "err_message E0 = (\<lambda>e. ''failed'')"
  "sqlite_tables E0 [1] = Some [(''cases'', 1)]"
  "sqlite_tables E0 [2] = Some [(''cases'', 2), (''sqlite_sequence'', 1)]"
  "sqlite_tables E0 [9] = None"
  "sqlite_count E0 = count_plain"
  by (simp_all add: E0_def)

lemma E1_simps [simp]:
  "userData E1 = ''/u''" "path_join E1 = (\<lambda>a b. a @ ''/'' @ b)"
  "path_resolve E1 = (\<lambda>p. if p = ''/u/backups/link.db'' then ''/etc/passwd'' else p)"
  "toISOString E1 = ''2025-01-02T03:04:05.678Z''" "err_message E1 = (\<lambda>e. ''failed'')"
  by (simp_all add: E1_def)

lemma w0_simps [simp]:
  "dirs w0 = {''/u/backups''}" "unwritable w0 = {}" "db w0 = Open [(''cases'', 1)]" "ops w0 = []"
  "audit w0 = []"
  "files w0 = [''/u/justice.db'' \<mapsto> [1], ''/u/backups/b.db'' \<mapsto> [2],
               ''/u/backups/junk.db'' \<mapsto> [9]]"
  by (simp_all add: w0_def)

lemma w_fresh_simps [simp]:
  "dirs w_fresh = {}" "unwritable w_fresh = {}" "db w_fresh = Open [(''cases'', 1)]"
  "ops w_fresh = []" "audit w_fresh = []" "files w_fresh = [''/u/justice.db'' \<mapsto> [1]]"
  by (simp_all add: w_fresh_def)

lemma w_no_backup_dir_simps [simp]:
  "dirs w_no_backup_dir = {}" "unwritable w_no_backup_dir = {''/u/backups''}"
  "db w_no_backup_dir = Open [(''cases'', 1)]" "ops w_no_backup_dir = []"
  "audit w_no_backup_dir = []" "files w_no_backup_dir = [''/u/justice.db'' \<mapsto> [1]]"
  by (simp_all add: w_no_backup_dir_def)

lemma logged_simps [simp]:
  "files (logged c w) = files w" "dirs (logged c w) = dirs w"
  "unwritable (logged c w) = unwritable w" "db (logged c w) = db w"
  "audit (logged c w) = audit w" "ops (logged c w) = ops w @ [c]"
  by (simp_all add: logged_def)

lemma formatTimestamp_E0 [simp]: "formatTimestamp E0 = ''2025-01-02T03-04-05''"
  by (simp add: formatTimestamp_def)

lemma getMainDbPath_E0 [simp]: "getMainDbPath E0 = ''/u/justice.db''"
  by (simp add: getMainDbPath_def)

lemma backupDirOf_E0 [simp]: "backupDirOf E0 = ''/u/backups''"
  by (simp add: backupDirOf_def)

lemma backupDirOf_E1 [simp]: "backupDirOf E1 = ''/u/backups''"
  by (simp add: backupDirOf_def)

lemma getBackupDir_result:
  assumes "getBackupDir E w = (r, w1)"
  shows "(r = Inr (backupDirOf E) \<or> r = Inl (SystemError ''EACCES'' (backupDirOf E)))
       \<and> (\<exists>mk. ops w1 = ops w @ ExistsSync (backupDirOf E)
                              # (if mk then [MkdirSync (backupDirOf E)] else []))
       \<and> files w1 = files w \<and> db w1 = db w \<and> audit w1 = audit w
       \<and> unwritable w1 = unwritable w
       \<and> (dirs w1 = dirs w \<or> dirs w1 = insert (backupDirOf E) (dirs w))"
proof (cases "backupDirOf E \<in> dom (files w) \<or> backupDirOf E \<in> dirs w")
  case True
  with assms have "r = Inr (backupDirOf E)" "w1 = logged (ExistsSync (backupDirOf E)) w"
    by (simp_all add: getBackupDir_eq)
  then show ?thesis by (intro conjI exI[where x=False]) simp_all
next
  case False
  show ?thesis
  proof (cases "backupDirOf E \<in> unwritable w")
    case True
    with False assms have "r = Inl (SystemError ''EACCES'' (backupDirOf E))"
      "w1 = logged (MkdirSync (backupDirOf E)) (logged (ExistsSync (backupDirOf E)) w)"
      by (simp_all add: getBackupDir_eq)
    then show ?thesis by (intro conjI exI[where x=True]) simp_all
  next
    case nw: False
    with False assms have "r = Inr (backupDirOf E)"
      "w1 = logged (MkdirSync (backupDirOf E))
              ((logged (ExistsSync (backupDirOf E)) w)\<lparr>dirs := insert (backupDirOf E) (dirs w)\<rparr>)"
      by (simp_all add: getBackupDir_eq)
    then show ?thesis by (intro conjI exI[where x=True]) (simp_all add: logged_def)
  qed
qed

lemma getBackupDir_available:
  assumes "backupDir_available E w"
  shows "\<exists>w1. getBackupDir E w = (Inr (backupDirOf E), w1)"
  using assms by (auto simp add: backupDir_available_def getBackupDir_eq)

lemma getBackupDir_unavailable:
  assumes "\<not> backupDir_available E w"
  shows "\<exists>w1. getBackupDir E w = (Inl (SystemError ''EACCES'' (backupDirOf E)), w1)"
  using assms by (auto simp add: backupDir_available_def getBackupDir_eq)

lemma withAuthorization_None:
  assumes "validateSession S sessionId = None"
  shows "withAuthorization S sessionId work w = (Failure Unauthorized, w)"
  using assms by (simp add: withAuthorization_def)

lemma withAuthorization_Some:
  assumes "validateSession S sessionId = Some uid" and "work uid w = (Inr r, w')"
  shows "withAuthorization S sessionId work w = (r, w')"
  using assms by (simp add: withAuthorization_def)

lemma succeeded_simps [simp]: "succeeded (Success x)" "\<not> succeeded (Failure e)"
  by (simp_all add: succeeded_def)

lemma PathTraversal_traversal_error [simp]: "PathTraversal (traversal_error operation fn)"
  by (simp add: PathTraversal_def traversal_error_def)

subsection \<open>The restore handler, step by step\<close>

lemma restore_try_eq:
  assumes "getBackupDir E w = (Inr bd, w1)"
  shows "restore_try E fn uid w =
     (if str_includes fn ''/'' \<or> str_includes fn [CHR 0x5C] \<or> str_includes fn ''..''
      then (Inl (DatabaseError ''restore''
                   ''Invalid backup filename - path traversal not allowed''), w1)
      else if \<not> startsWith (path_resolve E (path_join E bd fn)) (path_resolve E bd)
      then (Inl (DatabaseError ''restore''
                   ''Invalid backup path - outside backup directory''), w1)
      else if \<not> (path_join E bd fn \<in> dom (files w1) \<or> path_join E bd fn \<in> dirs w1)
      then (Inl (FileNotFoundError ''Backup file not found''),
            logged (ExistsSync (path_join E bd fn)) w1)
      else restore_swap E fn uid bd (path_join E bd fn) (getMainDbPath E)
             (logged (OpenReadonly (path_join E bd fn))
                (logged (ExistsSync (path_join E bd fn)) w1)))"
  using assms
  by (simp add: restore_try_def andThen_def tryCatch_def throw_def ret_def Let_def existsSync_def
      newDatabaseReadonly_def)

lemma restore_try_throw:
  assumes "getBackupDir E w = (Inl e, w1)"
  shows "restore_try E fn uid w = (Inl e, w1)"
  using assms by (simp add: restore_try_def andThen_def)

lemma restore_work_Inl:
  assumes "restore_try E fn uid w = (Inl e, w')"
  shows "restore_work E fn uid w =
           (Inr (Failure e), w'\<lparr>audit := audit w' @ [restore_failure_event E fn uid e]\<rparr>)"
  using assms
  by (simp add: restore_work_def restore_catch_def tryCatch_def andThen_def logAuditEvent_def
      ret_def formatError_def restore_failure_event_def)

lemma restore_work_Inr:
  assumes "restore_try E fn uid w = (Inr r, w')"
  shows "restore_work E fn uid w = (Inr r, w')"
  using assms by (simp add: restore_work_def tryCatch_def)

lemma restore_work_ops: "ops (snd (restore_work E fn uid w)) = ops (snd (restore_try E fn uid w))"
proof (cases "restore_try E fn uid w")
  case (Pair r w')
  then show ?thesis
    by (cases r) (simp_all add: restore_work_Inl restore_work_Inr)
qed

lemma restore_try_traversal:
  assumes "escapes E fn"
  shows "\<exists>w1. restore_try E fn uid w =
           (Inl (if backupDir_available E w then traversal_error ''restore'' fn
                 else SystemError ''EACCES'' (backupDirOf E)), w1)
         \<and> files w1 = files w \<and> db w1 = db w \<and> audit w1 = audit w
         \<and> set (performed w w1) \<subseteq> {ExistsSync (backupDirOf E), MkdirSync (backupDirOf E)}"
proof (cases "backupDir_available E w")
  case True
  from getBackupDir_available [OF True] obtain w1 where
    g: "getBackupDir E w = (Inr (backupDirOf E), w1)" by blast
  from getBackupDir_result [OF g] obtain mk where
    o1: "ops w1 = ops w @ ExistsSync (backupDirOf E)
                              # (if mk then [MkdirSync (backupDirOf E)] else [])"
    and f1: "files w1 = files w" "db w1 = db w" "audit w1 = audit w"
    by blast
  have "restore_try E fn uid w = (Inl (traversal_error ''restore'' fn), w1)"
    using assms by (auto simp add: restore_try_eq [OF g] escapes_def traversal_error_def)
  with True o1 f1 show ?thesis
    by (auto simp add: performed_def)
next
  case False
  from getBackupDir_unavailable [OF False] obtain w1 where
    g: "getBackupDir E w = (Inl (SystemError ''EACCES'' (backupDirOf E)), w1)" by blast
  from getBackupDir_result [OF g] obtain mk where
    o1: "ops w1 = ops w @ ExistsSync (backupDirOf E)
                              # (if mk then [MkdirSync (backupDirOf E)] else [])"
    and f1: "files w1 = files w" "db w1 = db w" "audit w1 = audit w"
    by blast
  from False o1 f1 show ?thesis
    by (auto simp add: restore_try_throw [OF g] performed_def)
qed

lemma restore_work_traversal:
  assumes "escapes E fn"
  shows "\<exists>e w'. restore_work E fn uid w = (Inr (Failure e), w')
         \<and> e = (if backupDir_available E w then traversal_error ''restore'' fn
                else SystemError ''EACCES'' (backupDirOf E))
         \<and> files w' = files w \<and> db w' = db w
         \<and> set (performed w w') \<subseteq> {ExistsSync (backupDirOf E), MkdirSync (backupDirOf E)}"
proof -
  from restore_try_traversal [OF assms, of uid w] obtain w1 where
    t: "restore_try E fn uid w =
           (Inl (if backupDir_available E w then traversal_error ''restore'' fn
                 else SystemError ''EACCES'' (backupDirOf E)), w1)"
    and f: "files w1 = files w" "db w1 = db w"
    and p: "set (performed w w1) \<subseteq> {ExistsSync (backupDirOf E), MkdirSync (backupDirOf E)}"
    by blast
  from f p show ?thesis
    by (simp add: restore_work_Inl [OF t] performed_def)
qed

subsection \<open>The deleteBackup handler, step by step\<close>

lemma deleteBackup_try_eq:
  assumes "getBackupDir E w = (Inr bd, w1)"
  shows "deleteBackup_try E fn uid w =
     (if str_includes fn ''/'' \<or> str_includes fn [CHR 0x5C] \<or> str_includes fn ''..''
      then (Inl (DatabaseError ''delete backup''
                   ''Invalid backup filename - path traversal not allowed''), w1)
      else if \<not> startsWith (path_resolve E (path_join E bd fn)) (path_resolve E bd)
      then (Inl (DatabaseError ''delete backup''
                   ''Invalid backup path - outside backup directory''), w1)
      else if \<not> (path_join E bd fn \<in> dom (files w1) \<or> path_join E bd fn \<in> dirs w1)
      then (Inl (FileNotFoundError ''Backup file not found''),
            logged (ExistsSync (path_join E bd fn)) w1)
      else andThen (unlinkSync (path_join E bd fn)) (\<lambda>_.
           andThen (logAuditEvent (delete_success_event fn uid)) (\<lambda>_.
           ret (successResponse (DeleteData True ''Backup deleted successfully''))))
             (logged (ExistsSync (path_join E bd fn)) w1))"
  using assms
  by (simp add: deleteBackup_try_def andThen_def throw_def Let_def existsSync_def
      delete_success_event_def)

lemma deleteBackup_try_throw:
  assumes "getBackupDir E w = (Inl e, w1)"
  shows "deleteBackup_try E fn uid w = (Inl e, w1)"
  using assms by (simp add: deleteBackup_try_def andThen_def)

lemma deleteBackup_work_Inl:
  assumes "deleteBackup_try E fn uid w = (Inl e, w')"
  shows "deleteBackup_work E fn uid w =
           (Inr (Failure e), w'\<lparr>audit := audit w' @ [delete_failure_event E fn uid e]\<rparr>)"
  using assms
  by (simp add: deleteBackup_work_def deleteBackup_catch_def tryCatch_def andThen_def
      logAuditEvent_def ret_def formatError_def delete_failure_event_def)

lemma deleteBackup_work_Inr:
  assumes "deleteBackup_try E fn uid w = (Inr r, w')"
  shows "deleteBackup_work E fn uid w = (Inr r, w')"
  using assms by (simp add: deleteBackup_work_def tryCatch_def)

lemma deleteBackup_work_traversal:
  assumes "escapes E fn"
  shows "\<exists>e w'. deleteBackup_work E fn uid w = (Inr (Failure e), w')
         \<and> e = (if backupDir_available E w then traversal_error ''delete backup'' fn
                else SystemError ''EACCES'' (backupDirOf E))
         \<and> files w' = files w \<and> db w' = db w
         \<and> set (performed w w') \<subseteq> {ExistsSync (backupDirOf E), MkdirSync (backupDirOf E)}"
proof (cases "backupDir_available E w")
  case True
  from getBackupDir_available [OF True] obtain w1 where
    g: "getBackupDir E w = (Inr (backupDirOf E), w1)" by blast
  from getBackupDir_result [OF g] obtain mk where
    o1: "ops w1 = ops w @ ExistsSync (backupDirOf E)
                              # (if mk then [MkdirSync (backupDirOf E)] else [])"
    and f1: "files w1 = files w" "db w1 = db w"
    by blast
  have t: "deleteBackup_try E fn uid w = (Inl (traversal_error ''delete backup'' fn), w1)"
    using assms by (auto simp add: deleteBackup_try_eq [OF g] escapes_def traversal_error_def)
  from True o1 f1 show ?thesis
    by (auto simp add: deleteBackup_work_Inl [OF t] performed_def)
next
  case False
  from getBackupDir_unavailable [OF False] obtain w1 where
    g: "getBackupDir E w = (Inl (SystemError ''EACCES'' (backupDirOf E)), w1)" by blast
  from getBackupDir_result [OF g] obtain mk where
    o1: "ops w1 = ops w @ ExistsSync (backupDirOf E)
                              # (if mk then [MkdirSync (backupDirOf E)] else [])"
    and f1: "files w1 = files w" "db w1 = db w"
    by blast
  from False o1 f1 show ?thesis
    by (auto simp add: deleteBackup_work_Inl [OF deleteBackup_try_throw [OF g]] performed_def)
qed

subsection \<open>Path traversal\<close>

text \<open>
  Claim C1, as the spec states it, has restore and deleteBackup fail with the
  path-traversal error before any file system operation. Both handlers call
  \<open>getBackupDir\<close> before they look at the filename. Where the backup directory is
  missing and cannot be created, a filename with \<open>..\<close> is answered with the error of
  \<open>mkdir\<close>, which is not the path-traversal error; where it is missing and can be
  created, the request is rejected with the path-traversal error after the directory
  has been created.
\<close>

theorem traversal_checked_after_backup_directory:
  "escapes E0 ''../../etc/passwd''
   \<and> (\<exists>w'. restore_work E0 ''../../etc/passwd'' 7 w_no_backup_dir
              = (Inr (Failure (SystemError ''EACCES'' ''/u/backups'')), w'))
   \<and> (\<exists>w'. deleteBackup_work E0 ''../../etc/passwd'' 7 w_no_backup_dir
              = (Inr (Failure (SystemError ''EACCES'' ''/u/backups'')), w'))
   \<and> \<not> PathTraversal (SystemError ''EACCES'' ''/u/backups'')
   \<and> (\<exists>e w'. restore_work E0 ''../../etc/passwd'' 7 w_fresh = (Inr (Failure e), w')
          \<and> PathTraversal e
          \<and> performed w_fresh w' = [ExistsSync ''/u/backups'', MkdirSync ''/u/backups'']
          \<and> dirs w_fresh = {} \<and> dirs w' = {''/u/backups''})"
  by (simp add: escapes_def restore_work_def restore_try_def restore_catch_def
      deleteBackup_work_def deleteBackup_try_def deleteBackup_catch_def tryCatch_def andThen_def
      getBackupDir_eq throw_def ret_def logAuditEvent_def formatError_def PathTraversal_def
      performed_def)

text \<open>
  Claim C1, amended. For every backup filename that contains a path separator (slash
  or backslash) or a \<open>..\<close> sequence, or whose resolved path lies outside the backup
  directory, the restore operation and the deleteBackup operation both fail: with the
  path-traversal error when the backup directory exists or can be created, with the
  error of \<open>mkdir\<close> when it cannot. No file is read, copied or deleted and the primary
  store is neither closed nor replaced: the disk and the connection are as before, and
  the only calls made are those by which \<open>getBackupDir\<close> makes sure that the backup
  directory exists. The same holds of the handlers under any session: they do not
  succeed, and the disk and the connection are as before.
\<close>

theorem path_traversal_rejected:
  assumes "escapes E backupFilename"
  shows "(\<exists>e w'. restore_work E backupFilename uid w = (Inr (Failure e), w')
            \<and> e = (if backupDir_available E w then traversal_error ''restore'' backupFilename
                   else SystemError ''EACCES'' (backupDirOf E))
            \<and> (backupDir_available E w \<longrightarrow> PathTraversal e)
            \<and> files w' = files w \<and> db w' = db w
            \<and> set (performed w w') \<subseteq> {ExistsSync (backupDirOf E), MkdirSync (backupDirOf E)})
       \<and> (\<exists>e w'. deleteBackup_work E backupFilename uid w = (Inr (Failure e), w')
            \<and> e = (if backupDir_available E w then traversal_error ''delete backup'' backupFilename
                   else SystemError ''EACCES'' (backupDirOf E))
            \<and> (backupDir_available E w \<longrightarrow> PathTraversal e)
            \<and> files w' = files w \<and> db w' = db w
            \<and> set (performed w w') \<subseteq> {ExistsSync (backupDirOf E), MkdirSync (backupDirOf E)})
       \<and> \<not> succeeded (fst (db_restore E S backupFilename sessionId w))
       \<and> files (snd (db_restore E S backupFilename sessionId w)) = files w
       \<and> db (snd (db_restore E S backupFilename sessionId w)) = db w
       \<and> \<not> succeeded (fst (db_deleteBackup E S backupFilename sessionId w))
       \<and> files (snd (db_deleteBackup E S backupFilename sessionId w)) = files w
       \<and> db (snd (db_deleteBackup E S backupFilename sessionId w)) = db w"
proof -
  have r: "\<exists>e w'. restore_work E backupFilename u w = (Inr (Failure e), w')
            \<and> e = (if backupDir_available E w then traversal_error ''restore'' backupFilename
                   else SystemError ''EACCES'' (backupDirOf E))
            \<and> (backupDir_available E w \<longrightarrow> PathTraversal e)
            \<and> files w' = files w \<and> db w' = db w
            \<and> set (performed w w') \<subseteq> {ExistsSync (backupDirOf E), MkdirSync (backupDirOf E)}"
    for u
    using restore_work_traversal [OF assms, of u w] by auto
  have d: "\<exists>e w'. deleteBackup_work E backupFilename u w = (Inr (Failure e), w')
            \<and> e = (if backupDir_available E w then traversal_error ''delete backup'' backupFilename
                   else SystemError ''EACCES'' (backupDirOf E))
            \<and> (backupDir_available E w \<longrightarrow> PathTraversal e)
            \<and> files w' = files w \<and> db w' = db w
            \<and> set (performed w w') \<subseteq> {ExistsSync (backupDirOf E), MkdirSync (backupDirOf E)}"
    for u
    using deleteBackup_work_traversal [OF assms, of u w] by auto
  have hr: "\<not> succeeded (fst (db_restore E S backupFilename sessionId w))
       \<and> files (snd (db_restore E S backupFilename sessionId w)) = files w
       \<and> db (snd (db_restore E S backupFilename sessionId w)) = db w"
  proof (cases "validateSession S sessionId")
    case None
    then show ?thesis by (simp add: db_restore_def withAuthorization_None)
  next
    case (Some u)
    from r [of u] obtain e w' where
      "restore_work E backupFilename u w = (Inr (Failure e), w')" "files w' = files w" "db w' = db w"
      by blast
    with Some show ?thesis by (simp add: db_restore_def withAuthorization_Some)
  qed
  have hd: "\<not> succeeded (fst (db_deleteBackup E S backupFilename sessionId w))
       \<and> files (snd (db_deleteBackup E S backupFilename sessionId w)) = files w
       \<and> db (snd (db_deleteBackup E S backupFilename sessionId w)) = db w"
  proof (cases "validateSession S sessionId")
    case None
    then show ?thesis by (simp add: db_deleteBackup_def withAuthorization_None)
  next
    case (Some u)
    from d [of u] obtain e w' where
      "deleteBackup_work E backupFilename u w = (Inr (Failure e), w')" "files w' = files w"
      "db w' = db w"
      by blast
    with Some show ?thesis by (simp add: db_deleteBackup_def withAuthorization_Some)
  qed
  from r [of uid] d [of uid] hr hd show ?thesis by blast
qed

theorem path_traversal_rejected_witness:
  "escapes E0 ''../../etc/passwd'' \<and> escapes E0 ''a/b.db'' \<and> escapes E1 ''link.db''
   \<and> (\<exists>w'. restore_work E0 ''../../etc/passwd'' 7 w0
              = (Inr (Failure (DatabaseError ''restore''
                                 ''Invalid backup filename - path traversal not allowed'')), w')
          \<and> files w' = files w0 \<and> db w' = db w0)
   \<and> (\<exists>w'. restore_work E0 ''a/b.db'' 7 w_no_backup_dir
              = (Inr (Failure (SystemError ''EACCES'' ''/u/backups'')), w')
          \<and> files w' = files w_no_backup_dir \<and> db w' = db w_no_backup_dir)
   \<and> (\<exists>w'. deleteBackup_work E1 ''link.db'' 7 w0
              = (Inr (Failure (DatabaseError ''delete backup''
                                 ''Invalid backup path - outside backup directory'')), w')
          \<and> files w' = files w0 \<and> db w' = db w0)"
proof -
  have h1: "escapes E0 ''../../etc/passwd''"
    by (simp add: escapes_def)
  have h2: "escapes E0 ''a/b.db''"
    by (simp add: escapes_def)
  have h3: "escapes E1 ''link.db''"
    by (simp add: escapes_def startsWith_def)
  have a0: "backupDir_available E0 w0" "backupDir_available E1 w0"
    "\<not> backupDir_available E0 w_no_backup_dir"
    by (simp_all add: backupDir_available_def)
  have t1: "traversal_error ''restore'' ''../../etc/passwd''
      = DatabaseError ''restore'' ''Invalid backup filename - path traversal not allowed''"
    by (simp add: traversal_error_def)
  have t3: "traversal_error ''delete backup'' ''link.db''
      = DatabaseError ''delete backup'' ''Invalid backup path - outside backup directory''"
    by (simp add: traversal_error_def)
  from path_traversal_rejected [OF h1, of 7 w0 S0 "''s7''"] a0 t1
  have c1: "\<exists>w'. restore_work E0 ''../../etc/passwd'' 7 w0
              = (Inr (Failure (DatabaseError ''restore''
                                 ''Invalid backup filename - path traversal not allowed'')), w')
          \<and> files w' = files w0 \<and> db w' = db w0"
    by auto
  from path_traversal_rejected [OF h2, of 7 w_no_backup_dir S0 "''s7''"] a0
  have c2: "\<exists>w'. restore_work E0 ''a/b.db'' 7 w_no_backup_dir
              = (Inr (Failure (SystemError ''EACCES'' ''/u/backups'')), w')
          \<and> files w' = files w_no_backup_dir \<and> db w' = db w_no_backup_dir"
    by auto
  from path_traversal_rejected [OF h3, of 7 w0 S0 "''s7''"] a0 t3
  have c3: "\<exists>w'. deleteBackup_work E1 ''link.db'' 7 w0
              = (Inr (Failure (DatabaseError ''delete backup''
                                 ''Invalid backup path - outside backup directory'')), w')
          \<and> files w' = files w0 \<and> db w' = db w0"
    by auto
  from h1 h2 h3 c1 c2 c3 show ?thesis by blast
qed

subsection \<open>The order of a restore\<close>

lemma restore_swap_ops:
  "\<exists>snap xs. ops (snd (restore_swap E fn uid bd bp mainp w)) = ops w @ xs
      \<and> prefix xs (swap_sequence mainp
                     (path_join E bd (''pre-restore_'' @ formatTimestamp E @ ''.db'')) bp snap)
      \<and> (mainp \<in> dom (files w) \<longrightarrow> snap)"
proof (cases "mainp \<in> dom (files w) \<or> mainp \<in> dirs w")
  case True
  have "\<exists>xs. ops (snd (restore_swap E fn uid bd bp mainp w)) = ops w @ xs
      \<and> prefix xs (swap_sequence mainp
                     (path_join E bd (''pre-restore_'' @ formatTimestamp E @ ''.db'')) bp True)"
    using True
    by (simp add: restore_swap_def swap_sequence_def andThen_def Let_def existsSync_def
        copyFileSync_def ret_def databaseManager_close_def databaseManager_getDatabase_def
        logAuditEvent_def split: option.splits dbstate.splits)
  then show ?thesis by blast
next
  case False
  have "\<exists>xs. ops (snd (restore_swap E fn uid bd bp mainp w)) = ops w @ xs
      \<and> prefix xs (swap_sequence mainp
                     (path_join E bd (''pre-restore_'' @ formatTimestamp E @ ''.db'')) bp False)"
    using False
    by (simp add: restore_swap_def swap_sequence_def andThen_def Let_def existsSync_def
        copyFileSync_def ret_def databaseManager_close_def databaseManager_getDatabase_def
        logAuditEvent_def split: option.splits dbstate.splits)
  with False show ?thesis by blast
qed

lemma restore_swap_reopens:
  assumes "restore_swap E fn uid bd bp mainp w = (Inr r, w')"
  shows "\<exists>live. db w' = Open live"
  using assms
  by (auto simp add: restore_swap_def andThen_def Let_def existsSync_def
        copyFileSync_def ret_def databaseManager_close_def databaseManager_getDatabase_def
        logAuditEvent_def logged_def split: option.splits dbstate.splits if_splits)

lemma restore_swap_audit:
  assumes "restore_swap E fn uid bd bp mainp w = (r, w')"
  shows "case r of
           Inl e \<Rightarrow> audit w' = audit w
         | Inr x \<Rightarrow> succeeded x \<and> audit w' = audit w @ [restore_success_event fn uid]"
  using assms
  by (auto simp add: restore_swap_def andThen_def Let_def existsSync_def
        copyFileSync_def ret_def databaseManager_close_def databaseManager_getDatabase_def
        logAuditEvent_def successResponse_def succeeded_def restore_success_event_def
        split: option.splits dbstate.splits if_splits)

lemma restore_order:
  "\<exists>mk snap. prefix (performed w (snd (restore_work E backupFilename uid w)))
                  (restore_sequence E backupFilename mk snap)
      \<and> (getMainDbPath E \<in> dom (files w) \<longrightarrow> snap)"
proof -
  obtain r w1 where g: "getBackupDir E w = (r, w1)"
    by (cases "getBackupDir E w")
  from getBackupDir_result [OF g] obtain mk where
    r: "r = Inr (backupDirOf E) \<or> r = Inl (SystemError ''EACCES'' (backupDirOf E))"
    and o1: "ops w1 = ops w @ ExistsSync (backupDirOf E)
                              # (if mk then [MkdirSync (backupDirOf E)] else [])"
    and f1: "files w1 = files w"
    by blast
  let ?bp = "path_join E (backupDirOf E) backupFilename"
  let ?w2 = "logged (OpenReadonly ?bp) (logged (ExistsSync ?bp) w1)"
  from restore_swap_ops [of E backupFilename uid "backupDirOf E" ?bp "getMainDbPath E" ?w2]
  obtain snap xs where
    sw: "ops (snd (restore_swap E backupFilename uid (backupDirOf E) ?bp (getMainDbPath E) ?w2))
          = ops ?w2 @ xs"
    and px: "prefix xs (swap_sequence (getMainDbPath E) (snapshot_path E) ?bp snap)"
    and sn: "getMainDbPath E \<in> dom (files ?w2) \<longrightarrow> snap"
    unfolding snapshot_path_def by blast
  from sn f1 have sn': "getMainDbPath E \<in> dom (files w) \<longrightarrow> snap" by simp
  from px obtain ys where
    ys: "swap_sequence (getMainDbPath E) (snapshot_path E) ?bp snap = xs @ ys"
    by (auto simp: prefix_def)
  have seq: "restore_sequence E backupFilename mk snap =
      (ExistsSync (backupDirOf E) # (if mk then [MkdirSync (backupDirOf E)] else []))
      @ [ExistsSync ?bp, OpenReadonly ?bp] @ xs @ ys"
    using ys by (simp add: restore_sequence_def target_path_def)
  have "prefix (performed w (snd (restore_work E backupFilename uid w)))
          (restore_sequence E backupFilename mk snap)"
    using r
  proof
    assume "r = Inl (SystemError ''EACCES'' (backupDirOf E))"
    with g o1 show ?thesis
      by (simp add: restore_work_ops restore_try_throw performed_def seq)
  next
    assume "r = Inr (backupDirOf E)"
    with g have eq: "getBackupDir E w = (Inr (backupDirOf E), w1)" by simp
    show ?thesis
      unfolding restore_work_ops restore_try_eq [OF eq] performed_def seq
      using o1 sw by simp
  qed
  with sn' show ?thesis by blast
qed

lemma restore_success_reopens:
  assumes "restore_work E fn uid w = (Inr (Success d), w')"
  shows "\<exists>live. db w' = Open live"
proof (cases "restore_try E fn uid w")
  case (Pair r wt)
  show ?thesis
  proof (cases r)
    case (Inl e)
    with Pair assms show ?thesis by (simp add: restore_work_Inl)
  next
    case (Inr x)
    with Pair assms have t: "restore_try E fn uid w = (Inr (Success d), w')"
      by (simp add: restore_work_Inr)
    obtain r1 w1 where g: "getBackupDir E w = (r1, w1)"
      by (cases "getBackupDir E w")
    show ?thesis
    proof (cases r1)
      case (Inl e)
      with g t show ?thesis by (simp add: restore_try_throw)
    next
      case (Inr bd)
      with g have eq: "getBackupDir E w = (Inr bd, w1)" by simp
      from t [unfolded restore_try_eq [OF eq]] show ?thesis
        by (auto split: if_splits dest: restore_swap_reopens)
    qed
  qed
qed

lemma restore_missing_backup:
  assumes ne: "\<not> escapes E backupFilename" and av: "backupDir_available E w"
    and ab: "target_path E backupFilename \<notin> dom (files w)"
      "target_path E backupFilename \<notin> dirs w"
      "target_path E backupFilename \<noteq> backupDirOf E"
  shows "\<exists>w'. restore_work E backupFilename uid w
                 = (Inr (Failure (FileNotFoundError ''Backup file not found'')), w')
           \<and> files w' = files w \<and> db w' = db w
           \<and> set (performed w w')
               \<subseteq> {ExistsSync (backupDirOf E), MkdirSync (backupDirOf E),
                    ExistsSync (target_path E backupFilename)}"
proof -
  from getBackupDir_available [OF av] obtain w1 where
    g: "getBackupDir E w = (Inr (backupDirOf E), w1)" by blast
  from getBackupDir_result [OF g] obtain mk where
    o1: "ops w1 = ops w @ ExistsSync (backupDirOf E)
                              # (if mk then [MkdirSync (backupDirOf E)] else [])"
    and f1: "files w1 = files w" and d1: "db w1 = db w"
    and di: "dirs w1 = dirs w \<or> dirs w1 = insert (backupDirOf E) (dirs w)"
    by blast
  let ?bp = "path_join E (backupDirOf E) backupFilename"
  from ne have v: "\<not> (str_includes backupFilename ''/'' \<or> str_includes backupFilename [CHR 0x5C]
                        \<or> str_includes backupFilename ''..'')"
    "startsWith (path_resolve E ?bp) (path_resolve E (backupDirOf E))"
    by (simp_all add: escapes_def)
  from ab f1 di have "\<not> (?bp \<in> dom (files w1) \<or> ?bp \<in> dirs w1)"
    by (auto simp add: target_path_def)
  with v have t: "restore_try E backupFilename uid w =
      (Inl (FileNotFoundError ''Backup file not found''), logged (ExistsSync ?bp) w1)"
    by (simp add: restore_try_eq [OF g])
  show ?thesis
    using o1 f1 d1
    by (auto simp add: restore_work_Inl [OF t] performed_def target_path_def)
qed

subsection \<open>Restore of a corrupt backup\<close>

lemma w_dir_backup_simps [simp]:
  "dirs w_dir_backup = {''/u/backups'', ''/u/backups/d.db''}" "unwritable w_dir_backup = {}"
  "db w_dir_backup = Open [(''cases'', 1)]" "ops w_dir_backup = []" "audit w_dir_backup = []"
  "files w_dir_backup = [''/u/justice.db'' \<mapsto> [1], ''/u/backups/b.db'' \<mapsto> [2],
                         ''/u/backups/junk.db'' \<mapsto> [9]]"
  by (simp_all add: w_dir_backup_def)

lemma restore_of_directory_removes_store:
  "\<exists>w'. restore_work E0 ''d.db'' 7 w_dir_backup
           = (Inr (Failure (SystemError ''EISDIR'' ''/u/backups/d.db'')), w')
      \<and> files w' ''/u/justice.db'' = None \<and> db w' = Closed"
  by (simp add: restore_work_def restore_try_def restore_swap_def
      restore_catch_def tryCatch_def andThen_def getBackupDir_eq throw_def ret_def
      logAuditEvent_def formatError_def Let_def startsWith_def existsSync_def
      newDatabaseReadonly_def copyFileSync_def databaseManager_close_def
      databaseManager_getDatabase_def)

text \<open>
  Claim C6. The handler verifies the backup by opening it read-only and closing it
  again ("Verify backup is valid SQLite database"), and answers "Backup file is
  corrupted or invalid" when the open throws. The open reads nothing from the file, so
  a file that is not a well-formed store passes. With such a file at the place named
  by a valid filename, the handler goes on: it takes the pre-restore snapshot, closes
  the store and copies the file over the primary store. The attempt ends with the
  primary store file holding the content of the corrupt backup and the store closed,
  the reopening having failed; the error of the response is the one of the reopening,
  not the corrupt-backup error. (When no file is there, restore fails with the
  not-found error and touches nothing: \<open>restore_missing_backup\<close>; the order of the
  calls is that of \<open>restore_sequence\<close>: \<open>restore_order\<close>.)
\<close>

theorem restore_accepts_corrupt_backup:
  assumes "\<not> escapes E backupFilename"
    and "backupDirOf E \<in> dirs w"
    and "files w (target_path E backupFilename) = Some bs"
    and "\<not> well_formed_store E w (target_path E backupFilename)"
    and "files w (getMainDbPath E) = Some cur"
    and "getMainDbPath E \<notin> unwritable w" and "getMainDbPath E \<notin> dirs w"
    and "snapshot_path E \<notin> unwritable w" and "snapshot_path E \<notin> dirs w"
    and "snapshot_path E \<noteq> target_path E backupFilename"
  shows "\<exists>w'. restore_work E backupFilename uid w
                 = (Inr (Failure (SystemError ''SQLITE_NOTADB'' (getMainDbPath E))), w')
           \<and> files w' (getMainDbPath E) = Some bs
           \<and> db w' = Closed
           \<and> performed w w' = restore_sequence E backupFilename False True"
proof -
  let ?bd = "backupDirOf E"
  let ?bp = "path_join E ?bd backupFilename"
  let ?w1 = "logged (ExistsSync ?bd) w"
  let ?w2 = "logged (OpenReadonly ?bp) (logged (ExistsSync ?bp) ?w1)"
  have g: "getBackupDir E w = (Inr ?bd, ?w1)"
    using assms(2) by (simp add: getBackupDir_eq)
  have t: "restore_try E backupFilename uid w
             = restore_swap E backupFilename uid ?bd ?bp (getMainDbPath E) ?w2"
    using assms(1,3) by (auto simp add: restore_try_eq [OF g] escapes_def target_path_def)
  have c: "sqlite_tables E bs = None"
    using assms(3,4) by (simp add: well_formed_store_def)
  have s: "\<exists>w3. restore_swap E backupFilename uid ?bd ?bp (getMainDbPath E) ?w2
                   = (Inl (SystemError ''SQLITE_NOTADB'' (getMainDbPath E)), w3)
             \<and> files w3 (getMainDbPath E) = Some bs \<and> db w3 = Closed
             \<and> ops w3 = ops w @ restore_sequence E backupFilename False True"
    using assms(3,5-10) c
    unfolding snapshot_path_def target_path_def
    by (simp add: restore_swap_def andThen_def Let_def existsSync_def copyFileSync_def ret_def
        databaseManager_close_def databaseManager_getDatabase_def restore_sequence_def
        swap_sequence_def target_path_def snapshot_path_def domI)
  then obtain w3 where
    s3: "restore_swap E backupFilename uid ?bd ?bp (getMainDbPath E) ?w2
           = (Inl (SystemError ''SQLITE_NOTADB'' (getMainDbPath E)), w3)"
    and f3: "files w3 (getMainDbPath E) = Some bs" "db w3 = Closed"
      "ops w3 = ops w @ restore_sequence E backupFilename False True"
    by blast
  from t s3 have "restore_try E backupFilename uid w
                    = (Inl (SystemError ''SQLITE_NOTADB'' (getMainDbPath E)), w3)"
    by simp
  from restore_work_Inl [OF this] f3 show ?thesis
    by (simp add: performed_def)
qed

theorem restore_accepts_corrupt_backup_witness:
  "\<not> escapes E0 ''junk.db'' \<and> files w0 (target_path E0 ''junk.db'') = Some [9]
   \<and> \<not> well_formed_store E0 w0 (target_path E0 ''junk.db'')
   \<and> files w0 ''/u/justice.db'' = Some [1] \<and> db w0 = Open [(''cases'', 1)]
   \<and> (\<exists>w'. restore_work E0 ''junk.db'' 7 w0
              = (Inr (Failure (SystemError ''SQLITE_NOTADB'' ''/u/justice.db'')), w')
          \<and> files w' ''/u/justice.db'' = Some [9]
          \<and> db w' = Closed
          \<and> performed w0 w'
              = [ExistsSync ''/u/backups'', ExistsSync ''/u/backups/junk.db'',
                 OpenReadonly ''/u/backups/junk.db'', ExistsSync ''/u/justice.db'',
                 CopyFileSync ''/u/justice.db'' ''/u/backups/pre-restore_2025-01-02T03-04-05.db'',
                 DbClose, CopyFileSync ''/u/backups/junk.db'' ''/u/justice.db'', DbGetDatabase])"
proof -
  have h1: "\<not> escapes E0 ''junk.db''"
    by (simp add: escapes_def startsWith_def)
  have h2: "backupDirOf E0 \<in> dirs w0" by simp
  have h3: "files w0 (target_path E0 ''junk.db'') = Some [9]"
    by (simp add: target_path_def)
  have h4: "\<not> well_formed_store E0 w0 (target_path E0 ''junk.db'')"
    by (simp add: well_formed_store_def target_path_def)
  have h5: "files w0 (getMainDbPath E0) = Some [1]" by simp
  have h6: "getMainDbPath E0 \<notin> unwritable w0" "getMainDbPath E0 \<notin> dirs w0"
    "snapshot_path E0 \<notin> unwritable w0" "snapshot_path E0 \<notin> dirs w0"
    "snapshot_path E0 \<noteq> target_path E0 ''junk.db''"
    by (simp_all add: snapshot_path_def target_path_def)
  have sq: "restore_sequence E0 ''junk.db'' False True
      = [ExistsSync ''/u/backups'', ExistsSync ''/u/backups/junk.db'',
                 OpenReadonly ''/u/backups/junk.db'', ExistsSync ''/u/justice.db'',
                 CopyFileSync ''/u/justice.db'' ''/u/backups/pre-restore_2025-01-02T03-04-05.db'',
                 DbClose, CopyFileSync ''/u/backups/junk.db'' ''/u/justice.db'', DbGetDatabase]"
    by (simp add: restore_sequence_def swap_sequence_def target_path_def snapshot_path_def)
  from restore_accepts_corrupt_backup [OF h1 h2 h3 h4 h5 h6, of 7]
  have "\<exists>w'. restore_work E0 ''junk.db'' 7 w0
              = (Inr (Failure (SystemError ''SQLITE_NOTADB'' ''/u/justice.db'')), w')
          \<and> files w' ''/u/justice.db'' = Some [9]
          \<and> db w' = Closed
          \<and> performed w0 w' = restore_sequence E0 ''junk.db'' False True"
    by simp
  with h1 h3 h4 h5 sq show ?thesis by simp
qed

subsection \<open>A restore that fails after closing the store\<close>

text \<open>
  Claim C2. The restore handler closes the connection, copies the backup over the
  primary location and reopens the connection; its \<open>catch\<close> block logs the failure
  and returns, without reopening. When the copy fails (here the primary store file
  cannot be written), the attempt ends with the store closed, although it was open
  when the attempt began. The pre-restore snapshot has been taken, the primary file is
  as it was. (A restore that succeeds ends with the store open:
  \<open>restore_success_reopens\<close>.)
\<close>

theorem restore_failure_leaves_store_closed:
  "db w_readonly_main = Open [(''cases'', 1)]
   \<and> (\<exists>w'. restore_work E0 ''b.db'' 7 w_readonly_main
              = (Inr (Failure (SystemError ''EACCES'' ''/u/justice.db'')), w')
          \<and> db w' = Closed
          \<and> files w' ''/u/justice.db'' = Some [1]
          \<and> files w' ''/u/backups/pre-restore_2025-01-02T03-04-05.db'' = Some [1])"
  by (simp add: w_readonly_main_def restore_work_def restore_try_def restore_swap_def
      restore_catch_def tryCatch_def andThen_def getBackupDir_eq throw_def ret_def
      logAuditEvent_def formatError_def Let_def startsWith_def existsSync_def
      newDatabaseReadonly_def copyFileSync_def databaseManager_close_def
      databaseManager_getDatabase_def)

subsection \<open>The backup handler, step by step\<close>

lemma count_loop_eq:
  "count_loop E conn names totalRecords tableNames w
     = (counted E conn names totalRecords tableNames, w)"
proof (induction names arbitrary: totalRecords tableNames)
  case Nil
  show ?case by (simp add: ret_def)
next
  case (Cons name rest)
  show ?case
    by (cases "sqlite_count E conn name") (simp_all add: andThen_def select_count_def Cons.IH)
qed

lemma counted_all:
  assumes "\<forall>t \<in> set ts. sqlite_count E conn (fst t) = Inr (snd t)"
  shows "counted E conn (map fst ts) totalRecords tableNames
           = Inr (totalRecords + sum_list (map snd ts), tableNames @ map fst ts)"
  using assms by (induction ts arbitrary: totalRecords tableNames) simp_all

lemma counted_stops:
  assumes "\<forall>name \<in> set before. \<exists>n. sqlite_count E conn name = Inr n"
    and "sqlite_count E conn bad = Inl e"
  shows "counted E conn (before @ bad # after) totalRecords tableNames = Inl e"
  using assms by (induction before arbitrary: totalRecords tableNames) auto

lemma select_table_names_listed: "select_table_names conn = map fst (listed_tables conn)"
  by (simp add: select_table_names_def listed_tables_def)

lemma db_backup_Inl:
  assumes "backup_try E w = (Inl e, w')"
  shows "db_backup E w = (Inr (Failure e), w'\<lparr>audit := audit w' @ [backup_event False]\<rparr>)"
  using assms
  by (simp add: db_backup_def backup_catch_def tryCatch_def andThen_def logAuditEvent_def
      ret_def formatError_def backup_event_def)

lemma db_backup_Inr:
  assumes "backup_try E w = (Inr r, w')"
  shows "db_backup E w = (Inr r, w')"
  using assms by (simp add: db_backup_def tryCatch_def)

lemma backup_try_throw:
  assumes "getBackupDir E w = (Inl e, w1)"
  shows "backup_try E w = (Inl e, w1)"
  using assms by (simp add: backup_try_def andThen_def Let_def)

lemma backup_try_missing:
  assumes g: "getBackupDir E w = (Inr bd, w1)"
    and m: "getMainDbPath E \<notin> dom (files w1)" "getMainDbPath E \<notin> dirs w1"
  shows "backup_try E w = (Inl (FileNotFoundError ''Main database file not found''),
                           logged (ExistsSync (getMainDbPath E)) w1)"
  using g m
  by (simp add: backup_try_def andThen_def Let_def existsSync_def throw_def)

lemma backup_try_copied:
  assumes g: "getBackupDir E w = (Inr (backupDirOf E), w1)"
    and m: "files w1 (getMainDbPath E) = Some bs"
    and p: "backup_path E \<notin> unwritable w1" "backup_path E \<notin> dirs w1"
    and c: "db w1 = Open live"
  shows "backup_try E w =
     (case counted E live (select_table_names live) 0 [] of
        Inl e \<Rightarrow>
          (Inl e,
           logged DbGetDatabase (logged (StatSync (backup_path E))
             (logged (CopyFileSync (getMainDbPath E) (backup_path E))
                ((logged (ExistsSync (getMainDbPath E)) w1)
                   \<lparr>files := (files w1)(backup_path E \<mapsto> bs)\<rparr>))))
      | Inr cnt \<Rightarrow>
          (Inr (Success
             \<lparr>filename = backup_filename E, path = backup_path E, size_bytes = length bs,
               created_at = toISOString E, is_valid = True,
               metadata = Some \<lparr>version = ''1.0.0'', record_count = fst cnt,
                                tables = snd cnt\<rparr>\<rparr>),
           (logged DbGetDatabase (logged (StatSync (backup_path E))
              (logged (CopyFileSync (getMainDbPath E) (backup_path E))
                 ((logged (ExistsSync (getMainDbPath E)) w1)
                    \<lparr>files := (files w1)(backup_path E \<mapsto> bs)\<rparr>))))
             \<lparr>audit := audit w1 @ [backup_event True]\<rparr>))"
proof -
  have ex: "existsSync (getMainDbPath E) w1 = (Inr True, logged (ExistsSync (getMainDbPath E)) w1)"
    using m by (auto simp add: existsSync_def)
  let ?w2 = "logged (ExistsSync (getMainDbPath E)) w1"
  have cp: "copyFileSync (getMainDbPath E) (backup_path E) ?w2 =
      (Inr (), logged (CopyFileSync (getMainDbPath E) (backup_path E))
                 (?w2\<lparr>files := (files w1)(backup_path E \<mapsto> bs)\<rparr>))"
    using m p by (simp add: copyFileSync_def domI)
  let ?w3 = "logged (CopyFileSync (getMainDbPath E) (backup_path E))
                 (?w2\<lparr>files := (files w1)(backup_path E \<mapsto> bs)\<rparr>)"
  have st: "statSync_size (backup_path E) ?w3 = (Inr (length bs), logged (StatSync (backup_path E)) ?w3)"
    by (simp add: statSync_size_def logged_def)
  let ?w4 = "logged (StatSync (backup_path E)) ?w3"
  have gd: "databaseManager_getDatabase E ?w4 = (Inr live, logged DbGetDatabase ?w4)"
    using c by (simp add: databaseManager_getDatabase_def logged_def)
  show ?thesis
    by (simp add: backup_try_def andThen_def Let_def g ex
        cp [unfolded backup_path_def backup_filename_def, simplified]
        st [unfolded backup_path_def backup_filename_def, simplified]
        gd [unfolded backup_path_def backup_filename_def, simplified]
        backup_path_def backup_filename_def count_loop_eq logAuditEvent_def ret_def
        successResponse_def backup_event_def split: sum.splits)
qed

lemma backup_try_audit:
  assumes "backup_try E w = (r, w')"
  shows "case r of
           Inl e \<Rightarrow> audit w' = audit w
         | Inr x \<Rightarrow> succeeded x \<and> audit w' = audit w @ [backup_event True]"
  using assms
  by (auto simp add: backup_try_def andThen_def Let_def getBackupDir_eq existsSync_def
        copyFileSync_def statSync_size_def ret_def throw_def databaseManager_getDatabase_def
        count_loop_eq logAuditEvent_def successResponse_def succeeded_def backup_event_def
        split: option.splits dbstate.splits if_splits sum.splits)

lemma w_ahead_simps [simp]:
  "dirs w_ahead = {''/u/backups''}" "unwritable w_ahead = {}" "db w_ahead = Open [(''cases'', 3)]"
  "ops w_ahead = []" "audit w_ahead = []"
  "files w_ahead = [''/u/justice.db'' \<mapsto> [1], ''/u/backups/b.db'' \<mapsto> [2],
                    ''/u/backups/junk.db'' \<mapsto> [9]]"
  by (simp_all add: w_ahead_def)

lemma w_no_primary_simps [simp]:
  "dirs w_no_primary = {''/u/backups''}" "unwritable w_no_primary = {}"
  "db w_no_primary = Open [(''cases'', 1)]" "ops w_no_primary = []" "audit w_no_primary = []"
  "files w_no_primary = [''/u/backups/b.db'' \<mapsto> [2]]"
  by (simp_all add: w_no_primary_def)

lemma w_spaced_table_simps [simp]:
  "dirs w_spaced_table = {''/u/backups''}" "unwritable w_spaced_table = {}"
  "db w_spaced_table = Open [(''cases'', 1), (''case notes'', 2)]"
  "ops w_spaced_table = []" "audit w_spaced_table = []"
  "files w_spaced_table = [''/u/justice.db'' \<mapsto> [1], ''/u/backups/b.db'' \<mapsto> [2],
                           ''/u/backups/junk.db'' \<mapsto> [9]]"
  by (simp_all add: w_spaced_table_def)

lemma backup_path_E0 [simp]: "backup_path E0 = ''/u/backups/backup_2025-01-02T03-04-05.db''"
  by (simp add: backup_path_def backup_filename_def)

lemma count_plain_cases [simp]:
  "count_plain [(''cases'', n)] ''cases'' = Inr n"
  "count_plain [(''cases'', n), (''case notes'', k)] ''cases'' = Inr n"
  "count_plain [(''cases'', n), (''case notes'', k)] ''case notes''
     = Inl (SystemError ''SQLITE_ERROR'' ''case notes'')"
  by (simp_all add: count_plain_def plain_name_def)

lemma getBackupDir_existing:
  assumes "backupDirOf E \<in> dirs w"
  shows "getBackupDir E w = (Inr (backupDirOf E), logged (ExistsSync (backupDirOf E)) w)"
  using assms by (simp add: getBackupDir_eq)

lemma db_backup_E0:
  assumes "files w = [''/u/justice.db'' \<mapsto> [1], ''/u/backups/b.db'' \<mapsto> [2],
                      ''/u/backups/junk.db'' \<mapsto> [9]]"
    and "dirs w = {''/u/backups''}" and "unwritable w = {}" and "db w = Open [(''cases'', n)]"
  shows "\<exists>w'. db_backup E0 w =
           (Inr (Success
              \<lparr>filename = ''backup_2025-01-02T03-04-05.db'',
                path = ''/u/backups/backup_2025-01-02T03-04-05.db'', size_bytes = 1,
                created_at = ''2025-01-02T03:04:05.678Z'', is_valid = True,
                metadata = Some \<lparr>version = ''1.0.0'', record_count = n,
                                 tables = [''cases'']\<rparr>\<rparr>), w')
         \<and> files w' = (files w)(''/u/backups/backup_2025-01-02T03-04-05.db'' \<mapsto> [1])
         \<and> audit w' = audit w @ [backup_event True]"
proof -
  have g: "getBackupDir E0 w = (Inr (backupDirOf E0), logged (ExistsSync (backupDirOf E0)) w)"
    using assms(2) by (simp add: getBackupDir_existing)
  have m: "files (logged (ExistsSync (backupDirOf E0)) w) (getMainDbPath E0) = Some [1]"
    using assms(1) by simp
  have p: "backup_path E0 \<notin> unwritable (logged (ExistsSync (backupDirOf E0)) w)"
    "backup_path E0 \<notin> dirs (logged (ExistsSync (backupDirOf E0)) w)"
    using assms(2,3) by simp_all
  have c: "db (logged (ExistsSync (backupDirOf E0)) w) = Open [(''cases'', n)]"
    using assms(4) by simp
  have k: "counted E0 [(''cases'', n)] (select_table_names [(''cases'', n)]) 0 []
             = Inr (n, [''cases''])"
    by (simp add: select_table_names_def like_sqlite_def)
  have t: "backup_try E0 w =
     (Inr (Success
             \<lparr>filename = backup_filename E0, path = backup_path E0, size_bytes = length [1::8 word],
               created_at = toISOString E0, is_valid = True,
               metadata = Some \<lparr>version = ''1.0.0'', record_count = n,
                                tables = [''cases'']\<rparr>\<rparr>),
           (logged DbGetDatabase (logged (StatSync (backup_path E0))
              (logged (CopyFileSync (getMainDbPath E0) (backup_path E0))
                 ((logged (ExistsSync (getMainDbPath E0)) (logged (ExistsSync (backupDirOf E0)) w))
                    \<lparr>files := (files (logged (ExistsSync (backupDirOf E0)) w))
                                (backup_path E0 \<mapsto> [1])\<rparr>))))
             \<lparr>audit := audit (logged (ExistsSync (backupDirOf E0)) w) @ [backup_event True]\<rparr>)"
    unfolding backup_try_copied [OF g m p c] k by simp
  show ?thesis
    unfolding db_backup_Inr [OF t] by (simp add: backup_filename_def)
qed

lemma backup_fails_on_unquoted_table_name:
  "\<exists>w'. db_backup E0 w_spaced_table
           = (Inr (Failure (SystemError ''SQLITE_ERROR'' ''case notes'')), w')
      \<and> files w' ''/u/backups/backup_2025-01-02T03-04-05.db'' = Some [1]
      \<and> audit w' = [backup_event False]"
proof -
  have g: "getBackupDir E0 w_spaced_table
             = (Inr (backupDirOf E0), logged (ExistsSync (backupDirOf E0)) w_spaced_table)"
    by (simp add: getBackupDir_existing)
  have m: "files (logged (ExistsSync (backupDirOf E0)) w_spaced_table) (getMainDbPath E0) = Some [1]"
    by simp
  have p: "backup_path E0 \<notin> unwritable (logged (ExistsSync (backupDirOf E0)) w_spaced_table)"
    "backup_path E0 \<notin> dirs (logged (ExistsSync (backupDirOf E0)) w_spaced_table)"
    by simp_all
  have c: "db (logged (ExistsSync (backupDirOf E0)) w_spaced_table)
             = Open [(''cases'', 1), (''case notes'', 2)]"
    by simp
  have k: "counted E0 [(''cases'', 1), (''case notes'', 2)]
             (select_table_names [(''cases'', 1), (''case notes'', 2)]) 0 []
             = Inl (SystemError ''SQLITE_ERROR'' ''case notes'')"
    by (simp add: select_table_names_def like_sqlite_def toLowerCase_def toLowerCase_char_def)
  have t: "backup_try E0 w_spaced_table =
          (Inl (SystemError ''SQLITE_ERROR'' ''case notes''),
           logged DbGetDatabase (logged (StatSync (backup_path E0))
             (logged (CopyFileSync (getMainDbPath E0) (backup_path E0))
                ((logged (ExistsSync (getMainDbPath E0))
                    (logged (ExistsSync (backupDirOf E0)) w_spaced_table))
                   \<lparr>files := (files (logged (ExistsSync (backupDirOf E0)) w_spaced_table))
                               (backup_path E0 \<mapsto> [1])\<rparr>))))"
    unfolding backup_try_copied [OF g m p c] k by simp
  show ?thesis
    unfolding db_backup_Inl [OF t] by simp
qed

subsection \<open>What a backup copies and what it counts\<close>

text \<open>
  Claim C5, as the spec states it, has the table and row counts of the returned
  metadata read from the copy. The handler reads them through
  \<open>databaseManager.getDatabase()\<close>, the live connection: where the connection sees
  three rows and the primary store file holds one, the backup is a copy of the file
  (one row, which is what counting on the copy would give) and its metadata says three.
\<close>

theorem backup_counts_come_from_live_store:
  "\<exists>m w'. db_backup E0 w_ahead = (Inr (Success m), w')
      \<and> files w' (path m) = Some [1]
      \<and> sqlite_tables E0 [1] = Some [(''cases'', 1)]
      \<and> counted E0 [(''cases'', 1)] (select_table_names [(''cases'', 1)]) 0 [] = Inr (1, [''cases''])
      \<and> metadata m = Some \<lparr>version = ''1.0.0'', record_count = 3, tables = [''cases'']\<rparr>"
proof -
  from db_backup_E0 [of w_ahead 3] obtain w' where
    r: "db_backup E0 w_ahead =
           (Inr (Success
              \<lparr>filename = ''backup_2025-01-02T03-04-05.db'',
                path = ''/u/backups/backup_2025-01-02T03-04-05.db'', size_bytes = 1,
                created_at = ''2025-01-02T03:04:05.678Z'', is_valid = True,
                metadata = Some \<lparr>version = ''1.0.0'', record_count = 3,
                                 tables = [''cases'']\<rparr>\<rparr>), w')"
    and f: "files w' = (files w_ahead)(''/u/backups/backup_2025-01-02T03-04-05.db'' \<mapsto> [1])"
    by auto
  have k: "counted E0 [(''cases'', 1)] (select_table_names [(''cases'', 1)]) 0 []
             = Inr (1, [''cases''])"
    by (simp add: select_table_names_def like_sqlite_def)
  from f k show ?thesis
    unfolding r by simp
qed

text \<open>
  Claim C5, amended. The backup first makes sure that the backup directory exists, and
  fails with the error of \<open>mkdir\<close> when it is missing and cannot be created. Then it
  fails with the source-missing error (\<open>FileNotFoundError\<close>, "Main database file not
  found") and writes no file when there is nothing at the primary location. When the
  primary store file exists, the backup path can be written and the store is open, the
  backup is a byte-for-byte copy of the file at \<open>backup_<timestamp>.db\<close> in the
  backup directory, the reported size is the size of the copy, and the table names and
  the row count of the metadata are read from the live connection of
  \<open>databaseManager\<close>, leaving out SQLite's own tables; this when the count statement
  of each listed table answers with the rows of that table.
\<close>

theorem backup_copies_file_and_counts_connection:
  "(\<not> backupDir_available E w
    \<longrightarrow> (\<exists>w'. db_backup E w = (Inr (Failure (SystemError ''EACCES'' (backupDirOf E))), w')
              \<and> files w' = files w))
   \<and> (backupDir_available E w \<and> getMainDbPath E \<notin> dom (files w) \<and> getMainDbPath E \<notin> dirs w
      \<and> getMainDbPath E \<noteq> backupDirOf E
    \<longrightarrow> (\<exists>w'. db_backup E w
                 = (Inr (Failure (FileNotFoundError ''Main database file not found'')), w')
              \<and> files w' = files w))
   \<and> (backupDir_available E w \<and> files w (getMainDbPath E) = Some bs
        \<and> backup_path E \<notin> unwritable w \<and> backup_path E \<notin> dirs w
        \<and> backup_path E \<noteq> backupDirOf E \<and> db w = Open live
        \<and> (\<forall>t \<in> set (listed_tables live). sqlite_count E live (fst t) = Inr (snd t))
    \<longrightarrow> (\<exists>m w'. db_backup E w = (Inr (Success m), w')
              \<and> files w' = (files w)(backup_path E \<mapsto> bs)
              \<and> filename m = ''backup_'' @ formatTimestamp E @ ''.db''
              \<and> path m = path_join E (backupDirOf E) (filename m)
              \<and> size_bytes m = length bs
              \<and> metadata m = Some \<lparr>version = ''1.0.0'',
                                     record_count = sum_list (map snd (listed_tables live)),
                                     tables = map fst (listed_tables live)\<rparr>))"
proof (intro conjI impI)
  assume h: "\<not> backupDir_available E w"
  from getBackupDir_unavailable [OF h] obtain w1 where
    g: "getBackupDir E w = (Inl (SystemError ''EACCES'' (backupDirOf E)), w1)" by blast
  from getBackupDir_result [OF g] have f1: "files w1 = files w" by blast
  show "\<exists>w'. db_backup E w = (Inr (Failure (SystemError ''EACCES'' (backupDirOf E))), w')
              \<and> files w' = files w"
    using f1 by (simp add: db_backup_Inl [OF backup_try_throw [OF g]])
next
  assume h: "backupDir_available E w \<and> getMainDbPath E \<notin> dom (files w)
      \<and> getMainDbPath E \<notin> dirs w \<and> getMainDbPath E \<noteq> backupDirOf E"
  then obtain w1 where g: "getBackupDir E w = (Inr (backupDirOf E), w1)"
    using getBackupDir_available by blast
  from getBackupDir_result [OF g] have
    f1: "files w1 = files w" and
    d1: "dirs w1 = dirs w \<or> dirs w1 = insert (backupDirOf E) (dirs w)"
    by blast+
  from h f1 d1 have m: "getMainDbPath E \<notin> dom (files w1)" "getMainDbPath E \<notin> dirs w1"
    by auto
  show "\<exists>w'. db_backup E w
                 = (Inr (Failure (FileNotFoundError ''Main database file not found'')), w')
              \<and> files w' = files w"
    using f1 by (simp add: db_backup_Inl [OF backup_try_missing [OF g m]])
next
  assume h: "backupDir_available E w \<and> files w (getMainDbPath E) = Some bs
        \<and> backup_path E \<notin> unwritable w \<and> backup_path E \<notin> dirs w
        \<and> backup_path E \<noteq> backupDirOf E \<and> db w = Open live
        \<and> (\<forall>t \<in> set (listed_tables live). sqlite_count E live (fst t) = Inr (snd t))"
  then obtain w1 where g: "getBackupDir E w = (Inr (backupDirOf E), w1)"
    using getBackupDir_available by blast
  from getBackupDir_result [OF g] have
    f1: "files w1 = files w" and u1: "unwritable w1 = unwritable w" and c1: "db w1 = db w" and
    d1: "dirs w1 = dirs w \<or> dirs w1 = insert (backupDirOf E) (dirs w)"
    by blast+
  from h f1 have m: "files w1 (getMainDbPath E) = Some bs" by simp
  from h u1 d1 have p: "backup_path E \<notin> unwritable w1" "backup_path E \<notin> dirs w1"
    by auto
  from h c1 have c: "db w1 = Open live" by simp
  from h have "\<forall>t \<in> set (listed_tables live). sqlite_count E live (fst t) = Inr (snd t)"
    by blast
  from counted_all [OF this, of 0 "[]"]
  have k: "counted E live (select_table_names live) 0 []
             = Inr (sum_list (map snd (listed_tables live)), map fst (listed_tables live))"
    by (simp add: select_table_names_listed)
  have t: "backup_try E w =
     (Inr (Success
             \<lparr>filename = backup_filename E, path = backup_path E, size_bytes = length bs,
               created_at = toISOString E, is_valid = True,
               metadata = Some \<lparr>version = ''1.0.0'',
                                record_count = sum_list (map snd (listed_tables live)),
                                tables = map fst (listed_tables live)\<rparr>\<rparr>),
           (logged DbGetDatabase (logged (StatSync (backup_path E))
              (logged (CopyFileSync (getMainDbPath E) (backup_path E))
                 ((logged (ExistsSync (getMainDbPath E)) w1)
                    \<lparr>files := (files w1)(backup_path E \<mapsto> bs)\<rparr>))))
             \<lparr>audit := audit w1 @ [backup_event True]\<rparr>)"
    unfolding backup_try_copied [OF g m p c] k by simp
  show "\<exists>m w'. db_backup E w = (Inr (Success m), w')
              \<and> files w' = (files w)(backup_path E \<mapsto> bs)
              \<and> filename m = ''backup_'' @ formatTimestamp E @ ''.db''
              \<and> path m = path_join E (backupDirOf E) (filename m)
              \<and> size_bytes m = length bs
              \<and> metadata m = Some \<lparr>version = ''1.0.0'',
                                     record_count = sum_list (map snd (listed_tables live)),
                                     tables = map fst (listed_tables live)\<rparr>"
    using f1
    by (simp add: db_backup_Inr [OF t] backup_filename_def backup_path_def)
qed

theorem backup_copies_file_and_counts_connection_witness:
  "\<not> backupDir_available E0 w_no_backup_dir
   \<and> (\<exists>w'. db_backup E0 w_no_backup_dir
              = (Inr (Failure (SystemError ''EACCES'' ''/u/backups'')), w')
          \<and> files w' = files w_no_backup_dir)
   \<and> (backupDir_available E0 w_no_primary \<and> getMainDbPath E0 \<notin> dom (files w_no_primary)
      \<and> getMainDbPath E0 \<notin> dirs w_no_primary \<and> getMainDbPath E0 \<noteq> backupDirOf E0)
   \<and> (\<exists>w'. db_backup E0 w_no_primary
                 = (Inr (Failure (FileNotFoundError ''Main database file not found'')), w')
              \<and> files w' = files w_no_primary)
   \<and> (backupDir_available E0 w_ahead \<and> files w_ahead (getMainDbPath E0) = Some [1]
        \<and> backup_path E0 \<notin> unwritable w_ahead \<and> backup_path E0 \<notin> dirs w_ahead
        \<and> backup_path E0 \<noteq> backupDirOf E0 \<and> db w_ahead = Open [(''cases'', 3)])
   \<and> sqlite_count E0 [(''cases'', 3)] ''cases'' = Inr 3
   \<and> (\<exists>m w'. db_backup E0 w_ahead = (Inr (Success m), w')
              \<and> files w' = (files w_ahead)(backup_path E0 \<mapsto> [1])
              \<and> size_bytes m = 1
              \<and> metadata m = Some \<lparr>version = ''1.0.0'', record_count = 3,
                                     tables = [''cases'']\<rparr>)"
proof -
  have h0: "\<not> backupDir_available E0 w_no_backup_dir"
    by (simp add: backupDir_available_def)
  have h1: "backupDir_available E0 w_no_primary \<and> getMainDbPath E0 \<notin> dom (files w_no_primary)
      \<and> getMainDbPath E0 \<notin> dirs w_no_primary \<and> getMainDbPath E0 \<noteq> backupDirOf E0"
    by (simp add: backupDir_available_def)
  have s: "listed_tables [(''cases'', 3)] = [(''cases'', 3)]"
    by (simp add: listed_tables_def like_sqlite_def)
  have q: "sqlite_count E0 [(''cases'', 3)] ''cases'' = Inr 3"
    by simp
  have h2: "backupDir_available E0 w_ahead \<and> files w_ahead (getMainDbPath E0) = Some [1]
        \<and> backup_path E0 \<notin> unwritable w_ahead \<and> backup_path E0 \<notin> dirs w_ahead
        \<and> backup_path E0 \<noteq> backupDirOf E0 \<and> db w_ahead = Open [(''cases'', 3)]"
    by (simp add: backupDir_available_def)
  have h3: "\<forall>t \<in> set (listed_tables [(''cases'', 3)]).
              sqlite_count E0 [(''cases'', 3)] (fst t) = Inr (snd t)"
    unfolding s by simp
  from h0 backup_copies_file_and_counts_connection [of E0 w_no_backup_dir]
  have c0: "\<exists>w'. db_backup E0 w_no_backup_dir
              = (Inr (Failure (SystemError ''EACCES'' ''/u/backups'')), w')
          \<and> files w' = files w_no_backup_dir"
    by simp
  from h1 backup_copies_file_and_counts_connection [of E0 w_no_primary]
  have c1: "\<exists>w'. db_backup E0 w_no_primary
                 = (Inr (Failure (FileNotFoundError ''Main database file not found'')), w')
              \<and> files w' = files w_no_primary"
    by blast
  from h2 h3 backup_copies_file_and_counts_connection [of E0 w_ahead "[1]" "[(''cases'', 3)]"]
  have "\<exists>m w'. db_backup E0 w_ahead = (Inr (Success m), w')
              \<and> files w' = (files w_ahead)(backup_path E0 \<mapsto> [1])
              \<and> filename m = ''backup_'' @ formatTimestamp E0 @ ''.db''
              \<and> path m = path_join E0 (backupDirOf E0) (filename m)
              \<and> size_bytes m = length [1::8 word]
              \<and> metadata m = Some \<lparr>version = ''1.0.0'',
                    record_count = sum_list (map snd (listed_tables [(''cases'', 3)])),
                    tables = map fst (listed_tables [(''cases'', 3)])\<rparr>"
    by blast
  then have c2: "\<exists>m w'. db_backup E0 w_ahead = (Inr (Success m), w')
              \<and> files w' = (files w_ahead)(backup_path E0 \<mapsto> [1])
              \<and> size_bytes m = 1
              \<and> metadata m = Some \<lparr>version = ''1.0.0'', record_count = 3,
                                     tables = [''cases'']\<rparr>"
    unfolding s by auto
  from h0 c0 h1 c1 h2 q c2 show ?thesis by blast
qed

subsection \<open>The session guard\<close>

lemma validateSession_S_expired [simp]: "validateSession S_expired sessionId = None"
  by (simp add: validateSession_def S_expired_def)

lemma validateSession_S0 [simp]: "validateSession S0 ''s7'' = Some 7"
  by (simp add: validateSession_def S0_def)

text \<open>
  Claim C3, as the spec states it, has every privileged entry point pass through the
  session guard. The \<open>db:backup\<close> handler takes no session id: with a session store
  in which no session id resolves to a user, it copies the primary store into the
  backup directory, records its audit event and answers with success.
\<close>

theorem backup_runs_without_a_session:
  "(\<forall>sessionId. validateSession S_expired sessionId = None)
   \<and> (\<exists>m w'. db_backup E0 w0 = (Inr (Success m), w')
         \<and> files w0 (path m) = None \<and> files w' (path m) = Some [1]
         \<and> recorded w0 w' = [backup_event True])"
proof -
  from db_backup_E0 [of w0 1] obtain w' where
    r: "db_backup E0 w0 =
           (Inr (Success
              \<lparr>filename = ''backup_2025-01-02T03-04-05.db'',
                path = ''/u/backups/backup_2025-01-02T03-04-05.db'', size_bytes = 1,
                created_at = ''2025-01-02T03:04:05.678Z'', is_valid = True,
                metadata = Some \<lparr>version = ''1.0.0'', record_count = 1,
                                 tables = [''cases'']\<rparr>\<rparr>), w')"
    and f: "files w' = (files w0)(''/u/backups/backup_2025-01-02T03-04-05.db'' \<mapsto> [1])"
    and a: "audit w' = audit w0 @ [backup_event True]"
    by auto
  from f a show ?thesis
    unfolding r by (simp add: recorded_def)
qed

text \<open>
  Claim C3, amended. Every entry point that takes a session id runs its work under
  the guard: for a session id that does not resolve to a valid user it answers
  \<open>Unauthorized\<close> and the state is the one it started from, whatever the work is, so
  the work is not invoked. This holds for \<open>db:restore\<close>, \<open>db:deleteBackup\<close>,
  \<open>case:get\<close>, \<open>case:update\<close>, \<open>case:delete\<close>, \<open>notifications:mark-read\<close>,
  \<open>tags:tagEvidence\<close> and \<open>gdpr:delete\<close>. The handlers \<open>db:migrate\<close> and
  \<open>db:backup\<close> take no session id and run as system operations.
\<close>

theorem guarded_handlers_reject_invalid_session:
  assumes "validateSession S sessionId = None"
  shows "(\<forall>work. withAuthorization S sessionId work w = (Failure Unauthorized, w))
       \<and> db_restore E S backupFilename sessionId w = (Failure Unauthorized, w)
       \<and> db_deleteBackup E S backupFilename sessionId w = (Failure Unauthorized, w)
       \<and> case_get J S ident sessionId s = (Failure Unauthorized, s)
       \<and> case_update J S ident data sessionId s = (Failure Unauthorized, s)
       \<and> case_delete J S ident sessionId s = (Failure Unauthorized, s)
       \<and> notifications_mark_read J S sessionId notificationId s = (Failure Unauthorized, s)
       \<and> tags_tagEvidence J S svc evidenceIdText numericEvidenceId numericTagIds sessionId s
           = (Failure Unauthorized, s)
       \<and> gdpr_delete J S sessionId options s = (Failure Unauthorized, s)"
  using assms
  by (simp add: withAuthorization_def db_restore_def db_deleteBackup_def case_get_def
      case_update_def case_delete_def notifications_mark_read_def tags_tagEvidence_def
      gdpr_delete_def)

theorem guarded_handlers_reject_invalid_session_witness:
  "validateSession S_expired ''s1'' = None
   \<and> db_restore E0 S_expired ''b.db'' ''s1'' w0 = (Failure Unauthorized, w0)
   \<and> db_deleteBackup E0 S_expired ''b.db'' ''s1'' w0 = (Failure Unauthorized, w0)"
proof -
  have h: "validateSession S_expired ''s1'' = None" by simp
  from h guarded_handlers_reject_invalid_session [OF h, of w0 E0 "''b.db''"]
  show ?thesis by blast
qed

subsection \<open>The audit events of an attempt\<close>

lemma deleteBackup_try_audit:
  assumes "deleteBackup_try E fn uid w = (r, w')"
  shows "case r of
           Inl e \<Rightarrow> audit w' = audit w
         | Inr x \<Rightarrow> succeeded x \<and> audit w' = audit w @ [delete_success_event fn uid]"
  using assms
  by (auto simp add: deleteBackup_try_def andThen_def Let_def getBackupDir_eq existsSync_def
        unlinkSync_def ret_def throw_def logAuditEvent_def successResponse_def succeeded_def
        delete_success_event_def
        split: option.splits if_splits)

lemma restore_try_audit:
  assumes "restore_try E fn uid w = (r, w')"
  shows "case r of
           Inl e \<Rightarrow> audit w' = audit w
         | Inr x \<Rightarrow> succeeded x \<and> audit w' = audit w @ [restore_success_event fn uid]"
proof -
  obtain r1 w1 where g: "getBackupDir E w = (r1, w1)"
    by (cases "getBackupDir E w")
  from getBackupDir_result [OF g] have a1: "audit w1 = audit w" by blast
  show ?thesis
  proof (cases r1)
    case (Inl e)
    with g assms a1 show ?thesis by (auto simp add: restore_try_throw)
  next
    case (Inr bd)
    let ?w2 = "logged (OpenReadonly (path_join E bd fn)) (logged (ExistsSync (path_join E bd fn)) w1)"
    obtain rs ws where
      s: "restore_swap E fn uid bd (path_join E bd fn) (getMainDbPath E) ?w2 = (rs, ws)"
      by (cases "restore_swap E fn uid bd (path_join E bd fn) (getMainDbPath E) ?w2")
    from restore_swap_audit [OF s] a1 have
      sw: "case rs of
             Inl e \<Rightarrow> audit ws = audit w
           | Inr x \<Rightarrow> succeeded x \<and> audit ws = audit w @ [restore_success_event fn uid]"
      by (cases rs) simp_all
    from Inr g have eq: "getBackupDir E w = (Inr bd, w1)" by simp
    from assms [unfolded restore_try_eq [OF eq] s] a1 sw show ?thesis
      by (auto split: if_splits)
  qed
qed

lemma recorded_append [simp]: "recorded w (w'\<lparr>audit := audit w @ evs\<rparr>) = evs"
  by (simp add: recorded_def)

lemma recorded_eq: "audit w' = audit w @ evs \<Longrightarrow> recorded w w' = evs"
  by (simp add: recorded_def)

lemma restore_work_one_event:
  "\<exists>r w' ev. restore_work E fn uid w = (Inr r, w') \<and> recorded w w' = [ev]
      \<and> userId ev = Some (digits uid)
      \<and> success ev = succeeded r \<and> (success ev \<longrightarrow> details ev \<noteq> None)
      \<and> errorMessage ev = None"
proof (cases "restore_try E fn uid w")
  case (Pair r w')
  show ?thesis
  proof (cases r)
    case (Inl e)
    with Pair restore_try_audit [of E fn uid w r w'] have a: "audit w' = audit w" by simp
    from Pair Inl have t: "restore_try E fn uid w = (Inl e, w')" by simp
    show ?thesis
      by (simp add: restore_work_Inl [OF t] a restore_failure_event_def)
  next
    case (Inr x)
    with Pair restore_try_audit [of E fn uid w r w']
    have a: "succeeded x" "audit w' = audit w @ [restore_success_event fn uid]" by simp_all
    from Pair Inr have t: "restore_try E fn uid w = (Inr x, w')" by simp
    show ?thesis
      using a by (simp add: restore_work_Inr [OF t] recorded_eq restore_success_event_def)
  qed
qed

lemma deleteBackup_work_one_event:
  "\<exists>r w' ev. deleteBackup_work E fn uid w = (Inr r, w') \<and> recorded w w' = [ev]
      \<and> userId ev = Some (digits uid)
      \<and> success ev = succeeded r \<and> (success ev \<longrightarrow> details ev \<noteq> None)
      \<and> errorMessage ev = None"
proof (cases "deleteBackup_try E fn uid w")
  case (Pair r w')
  show ?thesis
  proof (cases r)
    case (Inl e)
    with Pair deleteBackup_try_audit [of E fn uid w r w'] have a: "audit w' = audit w" by simp
    from Pair Inl have t: "deleteBackup_try E fn uid w = (Inl e, w')" by simp
    show ?thesis
      by (simp add: deleteBackup_work_Inl [OF t] a delete_failure_event_def)
  next
    case (Inr x)
    with Pair deleteBackup_try_audit [of E fn uid w r w']
    have a: "succeeded x" "audit w' = audit w @ [delete_success_event fn uid]" by simp_all
    from Pair Inr have t: "deleteBackup_try E fn uid w = (Inr x, w')" by simp
    show ?thesis
      using a by (simp add: deleteBackup_work_Inr [OF t] recorded_eq delete_success_event_def)
  qed
qed

lemma db_restore_one_event:
  assumes "validateSession S sessionId = Some uid"
  shows "\<exists>r w' ev. db_restore E S fn sessionId w = (r, w') \<and> recorded w w' = [ev]
      \<and> userId ev = Some (digits uid)
      \<and> success ev = succeeded r \<and> (success ev \<longrightarrow> details ev \<noteq> None)
      \<and> errorMessage ev = None"
proof -
  from restore_work_one_event [of E fn uid w] obtain r w' ev where
    k: "restore_work E fn uid w = (Inr r, w')" and
    e: "recorded w w' = [ev]" "userId ev = Some (digits uid)" "success ev = succeeded r"
      "success ev \<longrightarrow> details ev \<noteq> None" "errorMessage ev = None"
    by blast
  have "db_restore E S fn sessionId w = (r, w')"
    unfolding db_restore_def using assms k by (rule withAuthorization_Some)
  with e show ?thesis by blast
qed

lemma db_deleteBackup_one_event:
  assumes "validateSession S sessionId = Some uid"
  shows "\<exists>r w' ev. db_deleteBackup E S fn sessionId w = (r, w') \<and> recorded w w' = [ev]
      \<and> userId ev = Some (digits uid)
      \<and> success ev = succeeded r \<and> (success ev \<longrightarrow> details ev \<noteq> None)
      \<and> errorMessage ev = None"
proof -
  from deleteBackup_work_one_event [of E fn uid w] obtain r w' ev where
    k: "deleteBackup_work E fn uid w = (Inr r, w')" and
    e: "recorded w w' = [ev]" "userId ev = Some (digits uid)" "success ev = succeeded r"
      "success ev \<longrightarrow> details ev \<noteq> None" "errorMessage ev = None"
    by blast
  have "db_deleteBackup E S fn sessionId w = (r, w')"
    unfolding db_deleteBackup_def using assms k by (rule withAuthorization_Some)
  with e show ?thesis by blast
qed

lemma db_backup_one_event:
  "\<exists>r w' ev. db_backup E w = (Inr r, w') \<and> recorded w w' = [ev]
      \<and> success ev = succeeded r \<and> details ev = None \<and> errorMessage ev = None"
proof (cases "backup_try E w")
  case (Pair r w')
  show ?thesis
  proof (cases r)
    case (Inl e)
    with Pair backup_try_audit [of E w r w'] have a: "audit w' = audit w" by simp
    from Pair Inl have t: "backup_try E w = (Inl e, w')" by simp
    show ?thesis
      by (simp add: db_backup_Inl [OF t] a backup_event_def)
  next
    case (Inr x)
    with Pair backup_try_audit [of E w r w']
    have a: "succeeded x" "audit w' = audit w @ [backup_event True]" by simp_all
    from Pair Inr have t: "backup_try E w = (Inr x, w')" by simp
    show ?thesis
      using a by (simp add: db_backup_Inr [OF t] recorded_eq backup_event_def)
  qed
qed

lemma db_migrate_success_event:
  assumes "db_migrate D w = (Inr (Success m), w')"
  shows "\<exists>evs ev. audit w' = evs @ [ev] \<and> eventType ev = DATABASE_MIGRATED
           \<and> success ev \<and> details ev \<noteq> None \<and> errorMessage ev = None"
  using assms
  by (auto simp add: db_migrate_def migrate_try_def tryCatch_def andThen_def logAuditEvent_def
      ret_def formatError_def successResponse_def split: prod.splits sum.splits)

lemma db_migrate_D0:
  "db_migrate D0 w0 =
     (Inr (Success (MigrateData 1 0 ''pre_migration_backup.db''
                      ''Migrations completed successfully'')),
      w0\<lparr>audit := [\<lparr>eventType = DATABASE_MIGRATED, userId = None,
                      resourceType = ''database'', resourceId = ''main'',
                      action = ''migrate'', success = True,
                      details = Some [(''backupCreated'', ''pre_migration_backup.db''),
                                      (''migrationsApplied'', ''1''),
                                      (''migrationsPending'', ''0'')],
                      errorMessage = None\<rparr>]\<rparr>)"
  by (simp add: db_migrate_def migrate_try_def tryCatch_def andThen_def logAuditEvent_def
      ret_def successResponse_def D0_def digits.simps)

text \<open>
  Claim C4, as the spec states it, has every completed attempt end in exactly one
  terminal event, \<open>success:true\<close> with a details payload when it succeeds and
  \<open>success:false\<close> with an \<open>errorMessage\<close> when it fails. A backup attempted when
  there is no primary store file fails and records one event, with \<open>success:false\<close>
  and no \<open>errorMessage\<close>; a backup that succeeds records one event, with
  \<open>success:true\<close> and no details; a restore attempted under a session that the
  guard rejects is answered \<open>Unauthorized\<close> and records no event.
\<close>

theorem backup_events_not_as_specified:
  "(\<exists>w'. db_backup E0 w_no_primary
           = (Inr (Failure (FileNotFoundError ''Main database file not found'')), w')
      \<and> recorded w_no_primary w' = [backup_event False]
      \<and> \<not> terminal_event_as_specified False (backup_event False))
   \<and> (\<exists>m w'. db_backup E0 w0 = (Inr (Success m), w')
      \<and> recorded w0 w' = [backup_event True]
      \<and> \<not> terminal_event_as_specified True (backup_event True))
   \<and> (\<exists>w'. db_restore E0 S_expired ''b.db'' ''s1'' w0 = (Failure Unauthorized, w')
      \<and> recorded w0 w' = [])"
proof -
  have g: "getBackupDir E0 w_no_primary
             = (Inr (backupDirOf E0), logged (ExistsSync (backupDirOf E0)) w_no_primary)"
    by (simp add: getBackupDir_existing)
  have m: "getMainDbPath E0 \<notin> dom (files (logged (ExistsSync (backupDirOf E0)) w_no_primary))"
    "getMainDbPath E0 \<notin> dirs (logged (ExistsSync (backupDirOf E0)) w_no_primary)"
    by simp_all
  have c1: "\<exists>w'. db_backup E0 w_no_primary
           = (Inr (Failure (FileNotFoundError ''Main database file not found'')), w')
      \<and> recorded w_no_primary w' = [backup_event False]
      \<and> \<not> terminal_event_as_specified False (backup_event False)"
    unfolding db_backup_Inl [OF backup_try_missing [OF g m]]
    by (simp add: recorded_def terminal_event_as_specified_def backup_event_def)
  from db_backup_E0 [of w0 1] obtain m' w' where
    r: "db_backup E0 w0 = (Inr (Success m'), w')" and a: "audit w' = audit w0 @ [backup_event True]"
    by auto
  from a have "recorded w0 w' = [backup_event True]"
    by (simp add: recorded_def)
  with r have c2: "\<exists>m w'. db_backup E0 w0 = (Inr (Success m), w')
      \<and> recorded w0 w' = [backup_event True]
      \<and> \<not> terminal_event_as_specified True (backup_event True)"
    by (auto simp add: terminal_event_as_specified_def backup_event_def)
  have c3: "\<exists>w'. db_restore E0 S_expired ''b.db'' ''s1'' w0 = (Failure Unauthorized, w')
      \<and> recorded w0 w' = []"
    by (simp add: db_restore_def withAuthorization_None recorded_def)
  from c1 c2 c3 show ?thesis by blast
qed

text \<open>
  Claim C4, amended. Every attempt of \<open>db:restore\<close> and of \<open>db:deleteBackup\<close> made
  under a valid session, and every attempt of \<open>db:backup\<close>, records exactly one audit
  event, and the \<open>success\<close> flag of that event is the outcome of the attempt. The
  events of restore and deleteBackup name the user of the session, and their success
  events carry a details payload; the events of \<open>db:backup\<close> carry none, and no event
  carries an \<open>errorMessage\<close> (restore and deleteBackup put the error text into the
  details). An attempt of \<open>db:restore\<close> or \<open>db:deleteBackup\<close> under a session that
  the guard rejects is answered \<open>Unauthorized\<close>, and the handler records no event for
  it. A migration that succeeds has recorded, as its last event, a \<open>success:true\<close>
  event with a details payload.
\<close>

theorem database_attempts_record_one_event:
  "(validateSession S sessionId = Some uid
    \<longrightarrow> (\<exists>r w' ev. db_restore E S backupFilename sessionId w = (r, w') \<and> recorded w w' = [ev]
            \<and> userId ev = Some (digits uid)
            \<and> success ev = succeeded r \<and> (success ev \<longrightarrow> details ev \<noteq> None)
            \<and> errorMessage ev = None)
        \<and> (\<exists>r w' ev. db_deleteBackup E S backupFilename sessionId w = (r, w')
            \<and> recorded w w' = [ev] \<and> userId ev = Some (digits uid)
            \<and> success ev = succeeded r \<and> (success ev \<longrightarrow> details ev \<noteq> None)
            \<and> errorMessage ev = None))
   \<and> (validateSession S sessionId = None
    \<longrightarrow> db_restore E S backupFilename sessionId w = (Failure Unauthorized, w)
        \<and> recorded w (snd (db_restore E S backupFilename sessionId w)) = []
        \<and> db_deleteBackup E S backupFilename sessionId w = (Failure Unauthorized, w)
        \<and> recorded w (snd (db_deleteBackup E S backupFilename sessionId w)) = [])
   \<and> (\<exists>r w' ev. db_backup E w = (Inr r, w') \<and> recorded w w' = [ev]
        \<and> success ev = succeeded r \<and> details ev = None \<and> errorMessage ev = None)
   \<and> (\<forall>m w'. db_migrate D w = (Inr (Success m), w')
        \<longrightarrow> (\<exists>evs ev. audit w' = evs @ [ev] \<and> eventType ev = DATABASE_MIGRATED
               \<and> success ev \<and> details ev \<noteq> None \<and> errorMessage ev = None))"
proof (intro conjI impI allI)
  assume v: "validateSession S sessionId = Some uid"
  show "\<exists>r w' ev. db_restore E S backupFilename sessionId w = (r, w') \<and> recorded w w' = [ev]
            \<and> userId ev = Some (digits uid)
            \<and> success ev = succeeded r \<and> (success ev \<longrightarrow> details ev \<noteq> None)
            \<and> errorMessage ev = None"
    by (rule db_restore_one_event [OF v])
next
  assume v: "validateSession S sessionId = Some uid"
  show "\<exists>r w' ev. db_deleteBackup E S backupFilename sessionId w = (r, w')
            \<and> recorded w w' = [ev] \<and> userId ev = Some (digits uid)
            \<and> success ev = succeeded r \<and> (success ev \<longrightarrow> details ev \<noteq> None)
            \<and> errorMessage ev = None"
    by (rule db_deleteBackup_one_event [OF v])
next
  assume n: "validateSession S sessionId = None"
  show "db_restore E S backupFilename sessionId w = (Failure Unauthorized, w)"
    using n by (simp add: db_restore_def withAuthorization_None)
next
  assume n: "validateSession S sessionId = None"
  show "recorded w (snd (db_restore E S backupFilename sessionId w)) = []"
    using n by (simp add: db_restore_def withAuthorization_None recorded_def)
next
  assume n: "validateSession S sessionId = None"
  show "db_deleteBackup E S backupFilename sessionId w = (Failure Unauthorized, w)"
    using n by (simp add: db_deleteBackup_def withAuthorization_None)
next
  assume n: "validateSession S sessionId = None"
  show "recorded w (snd (db_deleteBackup E S backupFilename sessionId w)) = []"
    using n by (simp add: db_deleteBackup_def withAuthorization_None recorded_def)
next
  show "\<exists>r w' ev. db_backup E w = (Inr r, w') \<and> recorded w w' = [ev]
        \<and> success ev = succeeded r \<and> details ev = None \<and> errorMessage ev = None"
    by (rule db_backup_one_event)
next
  fix m w'
  assume "db_migrate D w = (Inr (Success m), w')"
  then show "\<exists>evs ev. audit w' = evs @ [ev] \<and> eventType ev = DATABASE_MIGRATED
               \<and> success ev \<and> details ev \<noteq> None \<and> errorMessage ev = None"
    by (rule db_migrate_success_event)
qed

theorem database_attempts_record_one_event_witness:
  "validateSession S0 ''s7'' = Some 7
   \<and> (\<exists>r w' ev. db_restore E0 S0 ''b.db'' ''s7'' w0 = (r, w') \<and> recorded w0 w' = [ev]
        \<and> userId ev = Some (digits 7) \<and> success ev = succeeded r \<and> errorMessage ev = None)
   \<and> (\<exists>r w' ev. db_deleteBackup E0 S0 ''b.db'' ''s7'' w0 = (r, w') \<and> recorded w0 w' = [ev]
        \<and> userId ev = Some (digits 7) \<and> success ev = succeeded r \<and> errorMessage ev = None)
   \<and> validateSession S_expired ''s1'' = None
   \<and> db_restore E0 S_expired ''b.db'' ''s1'' w0 = (Failure Unauthorized, w0)
   \<and> recorded w0 (snd (db_restore E0 S_expired ''b.db'' ''s1'' w0)) = []
   \<and> (\<exists>m w'. db_migrate D0 w0 = (Inr (Success m), w')
        \<and> (\<exists>evs ev. audit w' = evs @ [ev] \<and> eventType ev = DATABASE_MIGRATED
               \<and> success ev \<and> details ev \<noteq> None \<and> errorMessage ev = None))"
proof -
  have v: "validateSession S0 ''s7'' = Some 7" by simp
  have n: "validateSession S_expired ''s1'' = None" by simp
  from v database_attempts_record_one_event [of S0 "''s7''" 7 E0 "''b.db''" w0 D0]
  have c1: "(\<exists>r w' ev. db_restore E0 S0 ''b.db'' ''s7'' w0 = (r, w') \<and> recorded w0 w' = [ev]
        \<and> userId ev = Some (digits 7) \<and> success ev = succeeded r \<and> errorMessage ev = None)
   \<and> (\<exists>r w' ev. db_deleteBackup E0 S0 ''b.db'' ''s7'' w0 = (r, w') \<and> recorded w0 w' = [ev]
        \<and> userId ev = Some (digits 7) \<and> success ev = succeeded r \<and> errorMessage ev = None)"
    by blast
  from n database_attempts_record_one_event [of S_expired "''s1''" 7 E0 "''b.db''" w0 D0]
  have c2: "db_restore E0 S_expired ''b.db'' ''s1'' w0 = (Failure Unauthorized, w0)
      \<and> recorded w0 (snd (db_restore E0 S_expired ''b.db'' ''s1'' w0)) = []"
    by blast
  from database_attempts_record_one_event [of S0 "''s7''" 7 E0 "''b.db''" w0 D0] db_migrate_D0
  have c3: "\<exists>m w'. db_migrate D0 w0 = (Inr (Success m), w')
        \<and> (\<exists>evs ev. audit w' = evs @ [ev] \<and> eventType ev = DATABASE_MIGRATED
               \<and> success ev \<and> details ev \<noteq> None \<and> errorMessage ev = None)"
    by blast
  from v n c1 c2 c3 show ?thesis by blast
qed

subsection \<open>Secure storage of a raw buffer\<close>

lemma utf8_decode_FF: "utf8_decode [0xFF] = [0xFFFD]"
  by simp

lemma utf8_encode_FFFD: "utf8_encode [0xFFFD] = [0xEF, 0xBF, 0xBD]"
  by (simp add: utf8_encode_def encode_cp_def)

lemma string_round_trip:
  assumes "isEncryptionAvailable ss" and "decryptString ss (encryptString ss s) = Inr s"
  shows "\<exists>c. secure_storage_encrypt ss s = Success c \<and> secure_storage_decrypt ss c = Success s"
  using assms
  by (simp add: secure_storage_encrypt_def secure_storage_decrypt_def successResponse_def
      toString_base64_def)

lemma encryptBuffer_not_injective:
  "secure_storage_encryptBuffer ss [0xFF] = secure_storage_encryptBuffer ss [0xEF, 0xBF, 0xBD]"
  by (simp add: secure_storage_encryptBuffer_def second_ok3_def is_cont_def)

text \<open>
  Claim C7. \<open>secure-storage:encryptBuffer\<close> turns the buffer into a string with
  \<open>buffer.toString("utf8")\<close> before it encrypts, and \<open>secure-storage:decryptBuffer\<close>
  turns the decrypted string back into bytes. For the one-byte buffer \<open>FF\<close>, which is
  not UTF-8, and any \<open>safeStorage\<close> that is exact on the string it is given, the
  round trip answers with success and with the bytes \<open>EF BF BD\<close>: data different from
  the plaintext, and no error.
\<close>

theorem buffer_round_trip_returns_other_bytes:
  assumes "isEncryptionAvailable ss"
    and "decryptString ss (encryptString ss [0xFFFD]) = Inr [0xFFFD]"
  shows "\<exists>c. secure_storage_encryptBuffer ss [0xFF] = Success c
           \<and> secure_storage_decryptBuffer ss c = Success (Base64 [0xEF, 0xBF, 0xBD])"
  using assms
  by (simp add: secure_storage_encryptBuffer_def secure_storage_decryptBuffer_def
      successResponse_def toString_base64_def utf8_decode_FF utf8_encode_FFFD
      del: utf8_decode.simps)

theorem buffer_round_trip_returns_other_bytes_witness:
  "isEncryptionAvailable ss0
   \<and> decryptString ss0 (encryptString ss0 [0xFFFD]) = Inr [0xFFFD]
   \<and> (\<exists>c. secure_storage_encryptBuffer ss0 [0xFF] = Success c
           \<and> secure_storage_decryptBuffer ss0 c = Success (Base64 [0xEF, 0xBF, 0xBD]))"
proof -
  have h1: "isEncryptionAvailable ss0" by (simp add: ss0_def)
  have h2: "decryptString ss0 (encryptString ss0 [0xFFFD]) = Inr [0xFFFD]"
    by (simp add: ss0_def utf8_encode_FFFD second_ok3_def is_cont_def)
  from h1 h2 buffer_round_trip_returns_other_bytes [OF h1 h2] show ?thesis by blast
qed

subsection \<open>Tagging a batch\<close>

lemma tag_loop_append:
  "tag_loop svc ev uid (xs @ ys) w =
     (case tag_loop svc ev uid xs w of
        (Inl e, w') \<Rightarrow> (Inl e, w')
      | (Inr u, w') \<Rightarrow> tag_loop svc ev uid ys w')"
proof (induction xs arbitrary: w)
  case Nil
  show ?case by (simp add: ret_def)
next
  case (Cons x xs)
  show ?case
  proof (cases "tag_item svc ev uid x w")
    case (Pair r w1)
    then show ?thesis
      by (cases r) (simp_all add: andThen_def Cons.IH)
  qed
qed

lemma tagEvidence_catch_throws: "\<exists>e'. tagEvidence_catch J txt e w = (Inl e', w)"
  by (simp add: tagEvidence_catch_def Let_def throw_def)

lemma s0_simps [simp]:
  "evidence_tags s0 = []" "tags s0 = [(1, 7)]"
  "evidence s0 = [\<lparr>evidence_id = 10, case_id = 1\<rparr>, \<lparr>evidence_id = 20, case_id = 2\<rparr>]"
  "notifications s0 = [\<lparr>notification_id = 5, notification_userId = 8, isRead = False\<rparr>]"
  "consents s0 = [\<lparr>consent_userId = 7, consentType = ''data_processing''\<rparr>]"
  "cases s0 = [\<lparr>row_id = 1, title = ''A'', description = None, caseType = ''housing'',
                 status = ''active'', createdAt = ''t0'', updatedAt = ''t0'', user_id = 7\<rparr>,
               \<lparr>row_id = 2, title = ''B'', description = None, caseType = ''debt'',
                 status = ''active'', createdAt = ''t0'', updatedAt = ''t0'', user_id = 8\<rparr>]"
  by (simp_all add: s0_def)

lemma J0_simps [simp]:
  "err_message J0 = (\<lambda>e. ''failed'')" "String_error J0 = (\<lambda>e. ''Error: failed'')"
  "caseGetByIdSchema J0 = positive_id" "caseDeleteSchema J0 = positive_id"
  "caseUpdateSchema J0 = (\<lambda>v inp. map_sum id (\<lambda>i. (i, inp)) (positive_id v))"
  "template J0 = (\<lambda>v. case v of JNumber (Integer i) \<Rightarrow> int_toString i | _ \<Rightarrow> ''NaN'')"
  "CURRENT_TIMESTAMP J0 = ''2025-01-02 03:04:05''"
  by (simp_all add: J0_def)

lemma tag_first_ok:
  "tag_loop tagService_tagEvidence 10 7 [Integer 1] s0 = (Inr (), s0\<lparr>evidence_tags := [(10, 1)]\<rparr>)"
  by (simp add: tag_item_def tagService_tagEvidence_def andThen_def verifyOwnership_def
      evidence_owner_def ret_def throw_def)

lemma tag_second_fails:
  "tag_item tagService_tagEvidence 10 7 (Integer 2) (s0\<lparr>evidence_tags := [(10, 1)]\<rparr>)
     = (Inl ResourceNotFound, s0\<lparr>evidence_tags := [(10, 1)]\<rparr>)"
  by (simp add: tag_item_def tagService_tagEvidence_def andThen_def verifyOwnership_def
      evidence_owner_def ret_def throw_def)

text \<open>
  Claim C9, as the spec states it, has no item of a batch applied when the check fails
  for any item. User 7 tags the evidence item 10 with the tags 1 and 2; there is no tag
  2. The batch fails, and the tag 1 has been applied to the item.
\<close>

theorem failed_batch_keeps_earlier_tags:
  "evidence_tags s0 = []
   \<and> tagEvidence_work J0 tagService_tagEvidence ''10'' (Integer 10) [Integer 1, Integer 2] 7 s0
       = (Inl ResourceNotFound, s0\<lparr>evidence_tags := [(10, 1)]\<rparr>)"
  by (simp add: tagEvidence_work_def tagEvidence_catch_def tryCatch_def tag_item_def
      tagService_tagEvidence_def andThen_def verifyOwnership_def evidence_owner_def ret_def
      throw_def Let_def toLowerCase_def toLowerCase_char_def)

text \<open>
  Claim C9, amended. An ownership-gated batch write is applied item by item and stops
  at the first item whose check fails: the batch then fails, the items before the
  failing one have been applied and stay applied (there is no rollback), and the
  failing item and those after it are not applied. Here \<open>w1\<close> is the state after the
  items \<open>before\<close>, and \<open>w2\<close> what the failing call left of it; the items \<open>after\<close>
  play no part in the result.
\<close>

theorem batch_stops_at_first_failure:
  assumes "tag_loop svc ev uid before w = (Inr (), w1)"
    and "tag_item svc ev uid tagId w1 = (Inl e, w2)"
  shows "\<exists>e'. tagEvidence_work J svc evidenceIdText (Integer ev) (before @ tagId # after) uid w
                = (Inl e', w2)"
proof -
  have "tag_loop svc ev uid (before @ tagId # after) w = (Inl e, w2)"
    using assms by (simp add: tag_loop_append andThen_def)
  moreover obtain e' where "tagEvidence_catch J evidenceIdText e w2 = (Inl e', w2)"
    using tagEvidence_catch_throws [of J evidenceIdText e w2] by blast
  ultimately show ?thesis
    by (simp add: tagEvidence_work_def tryCatch_def andThen_def)
qed

theorem batch_stops_at_first_failure_witness:
  "tag_loop tagService_tagEvidence 10 7 [Integer 1] s0 = (Inr (), s0\<lparr>evidence_tags := [(10, 1)]\<rparr>)
   \<and> tag_item tagService_tagEvidence 10 7 (Integer 2) (s0\<lparr>evidence_tags := [(10, 1)]\<rparr>)
       = (Inl ResourceNotFound, s0\<lparr>evidence_tags := [(10, 1)]\<rparr>)
   \<and> (\<exists>e'. tagEvidence_work J0 tagService_tagEvidence ''10'' (Integer 10)
              ([Integer 1] @ Integer 2 # [Integer 1]) 7 s0
            = (Inl e', s0\<lparr>evidence_tags := [(10, 1)]\<rparr>))"
  using tag_first_ok tag_second_fails
    batch_stops_at_first_failure [OF tag_first_ok tag_second_fails, of J0 "''10''" "[Integer 1]"]
  by blast

subsection \<open>Erasure of a user's data\<close>

lemma gdpr_delete_frame:
  "audit (snd (gdpr_delete J S sessionId options s)) = audit s
   \<and> consents (snd (gdpr_delete J S sessionId options s)) = consents s"
proof (cases "validateSession S sessionId")
  case None
  then show ?thesis by (simp add: gdpr_delete_def withAuthorization_def)
next
  case (Some uid)
  show ?thesis
  proof (cases options)
    case None
    with Some show ?thesis
      by (simp add: gdpr_delete_def withAuthorization_def gdpr_delete_work_def tryCatch_def
          throw_def gdpr_delete_catch_def Let_def)
  next
    case (Some opts)
    with \<open>validateSession S sessionId = Some uid\<close> show ?thesis
      by (simp add: gdpr_delete_def withAuthorization_def gdpr_delete_work_def tryCatch_def
          throw_def gdpr_delete_catch_def Let_def andThen_def GdprService_deleteUserData_def
          ret_def)
  qed
qed

lemma gdpr_delete_confirmed:
  assumes "validateSession S sessionId = Some uid" and "options = Some opts" and "confirmed opts"
  shows "\<exists>res s'. gdpr_delete J S sessionId options s = (Success res, s')
           \<and> cases s' = filter (\<lambda>c. user_id c \<noteq> uid) (cases s)
           \<and> evidence s' = filter (\<lambda>e. case_id e \<notin> set (owned_case_ids s uid)) (evidence s)
           \<and> audit s' = audit s \<and> consents s' = consents s
           \<and> preservedAuditLogs res
               = length (filter (\<lambda>ev. userId ev = Some (digits uid)) (audit s))
           \<and> preservedConsents res
               = length (filter (\<lambda>c. consent_userId c = uid) (consents s))"
  using assms
  by (simp add: gdpr_delete_def withAuthorization_def gdpr_delete_work_def tryCatch_def
      andThen_def GdprService_deleteUserData_def ret_def successResponse_def Let_def)

text \<open>
  Claim C8. The erasure of a user's data, confirmed and under a valid session, removes
  the user's case rows and the evidence rows of the user's cases, and leaves the rows
  of every other user in place; the audit ledger and the consent rows are the same
  after as before, those that refer to the user included, and the result counts them
  as preserved. On every other path of the handler (no valid session, no
  confirmation) the ledger and the consent rows are unchanged as well.
\<close>

theorem erasure_preserves_audit_and_consents:
  "(validateSession S sessionId = Some uid \<and> options = Some opts \<and> confirmed opts
    \<longrightarrow> (\<exists>res s'. gdpr_delete J S sessionId options s = (Success res, s')
           \<and> (\<forall>c \<in> set (cases s'). user_id c \<noteq> uid)
           \<and> (\<forall>e \<in> set (evidence s'). case_id e \<notin> set (owned_case_ids s uid))
           \<and> cases s' = filter (\<lambda>c. user_id c \<noteq> uid) (cases s)
           \<and> evidence s' = filter (\<lambda>e. case_id e \<notin> set (owned_case_ids s uid)) (evidence s)
           \<and> audit s' = audit s \<and> consents s' = consents s
           \<and> preservedAuditLogs res
               = length (filter (\<lambda>ev. userId ev = Some (digits uid)) (audit s))
           \<and> preservedConsents res
               = length (filter (\<lambda>c. consent_userId c = uid) (consents s))))
   \<and> audit (snd (gdpr_delete J S sessionId options s)) = audit s
   \<and> consents (snd (gdpr_delete J S sessionId options s)) = consents s"
proof (intro conjI impI)
  assume h: "validateSession S sessionId = Some uid \<and> options = Some opts \<and> confirmed opts"
  from h gdpr_delete_confirmed [of S sessionId uid options opts J s]
  obtain res s' where r: "gdpr_delete J S sessionId options s = (Success res, s')"
    "cases s' = filter (\<lambda>c. user_id c \<noteq> uid) (cases s)"
    "evidence s' = filter (\<lambda>e. case_id e \<notin> set (owned_case_ids s uid)) (evidence s)"
    "audit s' = audit s" "consents s' = consents s"
    "preservedAuditLogs res = length (filter (\<lambda>ev. userId ev = Some (digits uid)) (audit s))"
    "preservedConsents res = length (filter (\<lambda>c. consent_userId c = uid) (consents s))"
    by blast
  from r(2) have c: "\<forall>c \<in> set (cases s'). user_id c \<noteq> uid" by simp
  from r(3) have e: "\<forall>e \<in> set (evidence s'). case_id e \<notin> set (owned_case_ids s uid)" by simp
  from r c e show "\<exists>res s'. gdpr_delete J S sessionId options s = (Success res, s')
           \<and> (\<forall>c \<in> set (cases s'). user_id c \<noteq> uid)
           \<and> (\<forall>e \<in> set (evidence s'). case_id e \<notin> set (owned_case_ids s uid))
           \<and> cases s' = filter (\<lambda>c. user_id c \<noteq> uid) (cases s)
           \<and> evidence s' = filter (\<lambda>e. case_id e \<notin> set (owned_case_ids s uid)) (evidence s)
           \<and> audit s' = audit s \<and> consents s' = consents s
           \<and> preservedAuditLogs res
               = length (filter (\<lambda>ev. userId ev = Some (digits uid)) (audit s))
           \<and> preservedConsents res
               = length (filter (\<lambda>c. consent_userId c = uid) (consents s))"
    by blast
next
  show "audit (snd (gdpr_delete J S sessionId options s)) = audit s"
    using gdpr_delete_frame [of J S sessionId options s] by blast
next
  show "consents (snd (gdpr_delete J S sessionId options s)) = consents s"
    using gdpr_delete_frame [of J S sessionId options s] by blast
qed

theorem erasure_preserves_audit_and_consents_witness:
  "validateSession S0 ''s7'' = Some 7
   \<and> confirmed \<lparr>confirmed = True, exportBeforeDelete = None, reason = None\<rparr>
   \<and> (\<exists>res s'. gdpr_delete J0 S0 ''s7''
                   (Some \<lparr>confirmed = True, exportBeforeDelete = None, reason = None\<rparr>) s0
                 = (Success res, s')
         \<and> cases s' = [\<lparr>row_id = 2, title = ''B'', description = None, caseType = ''debt'',
                          status = ''active'', createdAt = ''t0'', updatedAt = ''t0'',
                          user_id = 8\<rparr>]
         \<and> evidence s' = [\<lparr>evidence_id = 20, case_id = 2\<rparr>]
         \<and> audit s' = audit s0 \<and> consents s' = consents s0
         \<and> preservedAuditLogs res = 1 \<and> preservedConsents res = 1)"
proof -
  have h: "validateSession S0 ''s7'' = Some 7
      \<and> Some \<lparr>confirmed = True, exportBeforeDelete = None, reason = None\<rparr>
          = Some \<lparr>confirmed = True, exportBeforeDelete = None, reason = None\<rparr>
      \<and> confirmed \<lparr>confirmed = True, exportBeforeDelete = None, reason = None\<rparr>"
    by simp
  have a: "audit s0 = [\<lparr>eventType = CASE_VIEWED, userId = Some ''7'', resourceType = ''case'',
                     resourceId = ''1'', action = ''view'', success = True,
                     details = None, errorMessage = None\<rparr>]"
    by (simp add: s0_def)
  from h erasure_preserves_audit_and_consents [of S0 "''s7''" 7
       "Some \<lparr>confirmed = True, exportBeforeDelete = None, reason = None\<rparr>"
       "\<lparr>confirmed = True, exportBeforeDelete = None, reason = None\<rparr>" J0 s0]
  obtain res s' where r: "gdpr_delete J0 S0 ''s7''
                   (Some \<lparr>confirmed = True, exportBeforeDelete = None, reason = None\<rparr>) s0
                 = (Success res, s')"
    "cases s' = filter (\<lambda>c. user_id c \<noteq> 7) (cases s0)"
    "evidence s' = filter (\<lambda>e. case_id e \<notin> set (owned_case_ids s0 7)) (evidence s0)"
    "audit s' = audit s0" "consents s' = consents s0"
    "preservedAuditLogs res = length (filter (\<lambda>ev. userId ev = Some (digits 7)) (audit s0))"
    "preservedConsents res = length (filter (\<lambda>c. consent_userId c = 7) (consents s0))"
    by blast
  from r(2) have c: "cases s' = [\<lparr>row_id = 2, title = ''B'', description = None,
        caseType = ''debt'', status = ''active'', createdAt = ''t0'', updatedAt = ''t0'',
        user_id = 8\<rparr>]"
    by simp
  from r(3) have e: "evidence s' = [\<lparr>evidence_id = 20, case_id = 2\<rparr>]"
    by (simp add: owned_case_ids_def)
  from r(6) have pa: "preservedAuditLogs res = 1"
    by (simp add: a digits.simps)
  from r(7) have pc: "preservedConsents res = 1"
    by simp
  from h r(1) r(4) r(5) c e pa pc show ?thesis by blast
qed

subsection \<open>A resource of another user and a resource that does not exist\<close>








lemma J1_simps [simp]:
  "err_message J1 = message_of"
  "template J1 = (\<lambda>v. case v of JNumber (Integer i) \<Rightarrow> int_toString i | _ \<Rightarrow> ''NaN'')"
  by (simp_all add: J1_def J0_def)

lemma templates_delete_denied:
  assumes "validateSession S sessionId = Some uid"
    and "deleteTemplate ident uid s = (Inl e, s')"
    and "\<not> str_includes (toLowerCase (err_message J e)) ''database''"
    and "\<not> str_includes (toLowerCase (err_message J e)) ''sqlite''"
    and "\<not> str_includes (toLowerCase (err_message J e)) ''not found''"
    and "str_includes (toLowerCase (err_message J e)) ''access denied''"
  shows "templates_delete J S deleteTemplate ident sessionId s
           = (Failure (ValidationError ''Access denied: You can only delete your own templates''),
              s')"
  using assms
  by (simp add: templates_delete_def withAuthorization_def templates_delete_work_def
      tryCatch_def andThen_def templates_delete_catch_def Let_def throw_def)



lemma s_without_simps [simp]:
  "cases s_without = [\<lparr>row_id = 1, title = ''A'', description = None, caseType = ''housing'',
                        status = ''active'', createdAt = ''t0'', updatedAt = ''t0'',
                        user_id = 7\<rparr>]"
  "notifications s_without = []"
  by (simp_all add: s_without_def)


end
